theory Spec2Isabelle
  imports Main "HOL-Library.Char_ord" "HOL-Library.List_Lexorder" "HOL-Library.Multiset"
begin

section \<open>The experiment code generator \<^verbatim>\<open>tools/codegen/core/gen_experiments.py\<close>\<close>

text \<open>
  The generator is a script: it loads two YAML documents, validates them (lines 75-128),
  and prints three files (lines 218-350). The embedding follows the script top to bottom.

  \<^item> A Python \<^verbatim>\<open>str\<close> of the documents is a \<^typ>\<open>string\<close>; a character is its code
    point, here below 256 (Latin-1). \<^verbatim>\<open>str.upper\<close> and \<^verbatim>\<open>str.capitalize\<close> follow
    the Unicode case mappings, which take three of these characters out of that range or to
    two characters; their results, and so the lines of \<^verbatim>\<open>experiments.h\<close>, are lists
    of code points (\<open>unicode\<close>). \<^verbatim>\<open>capitalize\<close> is the one of Python 3.8 and later
    (title case for the first character). The files are opened with an encoding that holds
    every character written.
  \<^item> A record of a document is a Python dict. Its keys are optional (\<^verbatim>\<open>'k' not in d\<close> is
    \<open>k d = None\<close>) and, when present, hold a value of the type the documents give them:
    strings, a list of strings for \<^verbatim>\<open>test_tags\<close>, a boolean for
    \<^verbatim>\<open>allow_in_fuzzing_config\<close>, and a YAML scalar for \<^verbatim>\<open>default\<close>.
  \<^item> An uncaught exception ends the process with a traceback: a function that can raise
    returns \<open>py_error + 'a\<close>, and \<open>Inl\<close> is the exception. What was printed or written
    before the exception is not part of the result.
  \<^item> \<^verbatim>\<open>print(fmt % args)\<close> to the standard output is recorded as a \<open>message\<close>: one
    constructor for each format string of the script, holding the arguments.
  \<^item> A file is the list of the strings printed to it, each ended by a newline by
    \<^verbatim>\<open>print\<close>.
  \<^item> \<^verbatim>\<open>datetime.date\<close> is modelled by the proleptic Gregorian ordinal of the date
    (\<^verbatim>\<open>date.toordinal()\<close>): the library orders dates as their ordinals, and adding
    \<^verbatim>\<open>timedelta(days=n)\<close> adds \<open>n\<close> to the ordinal, raising OverflowError beyond
    \<^verbatim>\<open>date.max\<close>. \<^verbatim>\<open>date.today()\<close> is the parameter \<open>today\<close>.
\<close>

subsection \<open>Exceptions and values\<close>

datatype py_error =
    NameError | KeyError | ValueError | OverflowError | UnicodeEncodeError
  | SystemExit nat

text \<open>A scalar loaded by \<^verbatim>\<open>yaml.safe_load\<close>: \<^verbatim>\<open>debug\<close> is a string, \<^verbatim>\<open>true\<close> a boolean.\<close>

datatype yaml = YStr string | YBool bool | YInt int

text \<open>Python's \<^verbatim>\<open>==\<close> (and hash) on these values: \<^verbatim>\<open>bool\<close> is a subclass of
  \<^verbatim>\<open>int\<close>, so \<^verbatim>\<open>False == 0\<close> and \<^verbatim>\<open>True == 1\<close>.\<close>

fun py_eq :: "yaml \<Rightarrow> yaml \<Rightarrow> bool" where
  "py_eq (YStr a) (YStr b) = (a = b)"
| "py_eq (YBool a) (YBool b) = (a = b)"
| "py_eq (YInt a) (YInt b) = (a = b)"
| "py_eq (YBool a) (YInt b) = ((if a then 1 else 0) = b)"
| "py_eq (YInt a) (YBool b) = (a = (if b then 1 else 0))"
| "py_eq _ _ = False"

text \<open>A dict literal keyed by such values is the list of its items; \<open>dict_get\<close> is the
  lookup, \<open>None\<close> when the key is absent (\<^verbatim>\<open>k not in d\<close>; \<^verbatim>\<open>d[k]\<close> raises KeyError).\<close>

fun dict_get :: "(yaml \<times> 'v) list \<Rightarrow> yaml \<Rightarrow> 'v option" where
  "dict_get [] k = None"
| "dict_get ((k', v) # d) k = (if py_eq k' k then Some v else dict_get d k)"

definition subscript :: "(yaml \<times> 'v) list \<Rightarrow> yaml \<Rightarrow> py_error + 'v" where
  "subscript d k = (case dict_get d k of None \<Rightarrow> Inl KeyError | Some v \<Rightarrow> Inr v)"

text \<open>A \<^verbatim>\<open>for\<close> loop whose body updates a state and may raise.\<close>

fun for_each :: "('a \<Rightarrow> 's \<Rightarrow> py_error + 's) \<Rightarrow> 'a list \<Rightarrow> 's \<Rightarrow> py_error + 's" where
  "for_each body [] st = Inr st"
| "for_each body (x # xs) st =
     (case body x st of Inl e \<Rightarrow> Inl e | Inr st' \<Rightarrow> for_each body xs st')"

subsection \<open>The documents\<close>

text \<open>A record of \<^verbatim>\<open>experiments.yaml\<close> (the script's \<^verbatim>\<open>attr\<close>) and a record of
  \<^verbatim>\<open>rollouts.yaml\<close> (its \<^verbatim>\<open>rollout_attr\<close>, whose key \<^verbatim>\<open>name\<close> is the field
  \<open>rollout_name\<close>).\<close>

record attr =
  name :: "string option"
  description :: "string option"
  owner :: "string option"
  expiry :: "string option"
  test_tags :: "string list option"
  allow_in_fuzzing_config :: "bool option"

record rollout_attr =
  rollout_name :: "string option"
  default :: "yaml option"

subsection \<open>Lines 47-73: the tables keyed by the default of a rollout\<close>

definition DEFAULTS :: "(yaml \<times> string) list" where
  "DEFAULTS =
     [(YStr ''broken'', ''false''),
      (YBool False, ''false''),
      (YBool True, ''true''),
      (YStr ''debug'', ''kDefaultForDebugOnly'')]"

definition FINAL_RETURN :: "(yaml \<times> string) list" where
  "FINAL_RETURN =
     [(YStr ''broken'', ''return false;''),
      (YBool False, ''return false;''),
      (YBool True, ''return true;''),
      (YStr ''debug'',
         ''#ifdef NDEBUG\<newline>return false;\<newline>#else\<newline>return true;\<newline>#endif'')]"

definition FINAL_DEFINE :: "(yaml \<times> string option) list" where
  "FINAL_DEFINE =
     [(YStr ''broken'', None),
      (YBool False, None),
      (YBool True, Some ''#define %s''),
      (YStr ''debug'', Some ''#ifndef NDEBUG\<newline>#define %s\<newline>#endif'')]"

definition BZL_LIST_FOR_DEFAULTS :: "(yaml \<times> string option) list" where
  "BZL_LIST_FOR_DEFAULTS =
     [(YStr ''broken'', None),
      (YBool False, Some ''off''),
      (YBool True, Some ''on''),
      (YStr ''debug'', Some ''dbg'')]"

subsection \<open>The library: dates and \<^verbatim>\<open>strptime(s, '%Y/%m/%d')\<close>\<close>

type_synonym date = int

definition date_max :: date where
  "date_max = 3652059"

definition is_leap :: "int \<Rightarrow> bool" where
  "is_leap year = (year mod 4 = 0 \<and> (year mod 100 \<noteq> 0 \<or> year mod 400 = 0))"

definition days_before_year :: "int \<Rightarrow> int" where
  "days_before_year year =
     (let y = year - 1 in y * 365 + y div 4 - y div 100 + y div 400)"

definition DAYS_IN_MONTH :: "int list" where
  "DAYS_IN_MONTH = [31, 28, 31, 30, 31, 30, 31, 31, 30, 31, 30, 31]"

definition days_in_month :: "int \<Rightarrow> int \<Rightarrow> int" where
  "days_in_month year month =
     (if month = 2 \<and> is_leap year then 29 else DAYS_IN_MONTH ! nat (month - 1))"

definition days_before_month :: "int \<Rightarrow> int \<Rightarrow> int" where
  "days_before_month year month =
     sum_list (take (nat (month - 1)) DAYS_IN_MONTH)
       + (if month > 2 \<and> is_leap year then 1 else 0)"

definition ymd2ord :: "int \<Rightarrow> int \<Rightarrow> int \<Rightarrow> date" where
  "ymd2ord year month day = days_before_year year + days_before_month year month + day"

text \<open>\<^verbatim>\<open>today + datetime.timedelta(days=n)\<close>.\<close>

definition add_days :: "date \<Rightarrow> int \<Rightarrow> py_error + date" where
  "add_days d n = (if 1 \<le> d + n \<and> d + n \<le> date_max then Inr (d + n) else Inl OverflowError)"

text \<open>
  \<^verbatim>\<open>strptime\<close> turns the format into the regular expression
  \<^verbatim>\<open>(?P<Y>\d\d\d\d)/(?P<m>1[0-2]|0[1-9]|[1-9])/(?P<d>3[0-1]|[1-2]\d|0[1-9]|[1-9]| [1-9])\<close>,
  matches it at the start of the string, and raises ValueError when there is no match,
  when the match does not end the string, or when the numbers are not a date. Each group
  is the list of its matches of a prefix, in the order of its alternatives; the engine
  returns the first match of the whole expression.
\<close>

definition is_digit :: "char \<Rightarrow> bool" where
  "is_digit c = (CHR ''0'' \<le> c \<and> c \<le> CHR ''9'')"

definition digit_val :: "char \<Rightarrow> int" where
  "digit_val c = int (of_char c) - 48"

definition year_group :: "string \<Rightarrow> (int \<times> string) list" where
  "year_group s =
     (case s of
        a # b # c # d # r \<Rightarrow>
          if is_digit a \<and> is_digit b \<and> is_digit c \<and> is_digit d
          then [(1000 * digit_val a + 100 * digit_val b + 10 * digit_val c + digit_val d, r)]
          else []
      | _ \<Rightarrow> [])"

definition two_chars :: "(char \<Rightarrow> bool) \<Rightarrow> (char \<Rightarrow> bool) \<Rightarrow> string \<Rightarrow> (int \<times> string) list" where
  "two_chars p q s =
     (case s of
        a # b # r \<Rightarrow> if p a \<and> q b then [(10 * digit_val a + digit_val b, r)] else []
      | _ \<Rightarrow> [])"

definition one_char :: "(char \<Rightarrow> bool) \<Rightarrow> string \<Rightarrow> (int \<times> string) list" where
  "one_char p s = (case s of a # r \<Rightarrow> if p a then [(digit_val a, r)] else [] | _ \<Rightarrow> [])"

definition literal :: "char \<Rightarrow> string \<Rightarrow> string list" where
  "literal c s = (case s of a # r \<Rightarrow> if a = c then [r] else [] | _ \<Rightarrow> [])"

definition between :: "char \<Rightarrow> char \<Rightarrow> char \<Rightarrow> bool" where
  "between lo hi c = (lo \<le> c \<and> c \<le> hi)"

definition month_group :: "string \<Rightarrow> (int \<times> string) list" where
  "month_group s =
     two_chars (\<lambda>c. c = CHR ''1'') (between CHR ''0'' CHR ''2'') s
     @ two_chars (\<lambda>c. c = CHR ''0'') (between CHR ''1'' CHR ''9'') s
     @ one_char (between CHR ''1'' CHR ''9'') s"

definition day_group :: "string \<Rightarrow> (int \<times> string) list" where
  "day_group s =
     two_chars (\<lambda>c. c = CHR ''3'') (between CHR ''0'' CHR ''1'') s
     @ two_chars (between CHR ''1'' CHR ''2'') is_digit s
     @ two_chars (\<lambda>c. c = CHR ''0'') (between CHR ''1'' CHR ''9'') s
     @ one_char (between CHR ''1'' CHR ''9'') s
     @ concat (map (one_char (between CHR ''1'' CHR ''9'')) (literal CHR '' '' s))"

definition format_regex_match :: "string \<Rightarrow> ((int \<times> int \<times> int) \<times> string) list" where
  "format_regex_match s =
     [((y, m, d), r5).
        (y, r1) \<leftarrow> year_group s, r2 \<leftarrow> literal CHR ''/'' r1,
        (m, r3) \<leftarrow> month_group r2, r4 \<leftarrow> literal CHR ''/'' r3,
        (d, r5) \<leftarrow> day_group r4]"

definition strptime :: "string \<Rightarrow> py_error + date" where
  "strptime data_string =
     (case format_regex_match data_string of
        [] \<Rightarrow> Inl ValueError
      | ((y, m, d), rest) # _ \<Rightarrow>
          if rest \<noteq> [] then Inl ValueError
          else if y < 1 \<or> days_in_month y m < d then Inl ValueError
          else Inr (ymd2ord y m d))"

subsection \<open>Lines 75-128: validation\<close>

text \<open>What the script prints to the standard output, by format string:
  \<^item> \<open>NoDefault\<close>: \<^verbatim>\<open>no default for experiment %s\<close>;
  \<^item> \<open>InvalidDefault\<close>: \<^verbatim>\<open>invalid default for experiment %s: %r\<close>;
  \<^item> \<open>NoName\<close>: \<^verbatim>\<open>experiment with no name: %r\<close>;
  \<^item> \<open>NoDescription\<close>, \<open>NoOwner\<close>, \<open>NoExpiry\<close>: \<^verbatim>\<open>no ... for experiment %s\<close>;
  \<^item> \<open>ShouldNeverExpire\<close>: \<^verbatim>\<open>monitoring_experiment should never expire\<close>;
  \<^item> \<open>Expired\<close>: \<^verbatim>\<open>experiment %s expired on %s\<close>;
  \<^item> \<open>ExpiresFarInFuture\<close>: \<^verbatim>\<open>experiment %s expires far in the future on %s\<close>;
  \<^item> \<open>NoMoreThanTwoQuarters\<close>: \<^verbatim>\<open>expiry should be no more than two quarters from now\<close>;
  \<^item> \<open>TooLong\<close>: \<^verbatim>\<open>comma-delimited string of experiments is too long\<close>;
  \<^item> \<open>Warning\<close>: \<^verbatim>\<open>WARNING. experiment: %r has no rollout config. Disabling it.\<close>\<close>

datatype message =
    NoDefault string
  | InvalidDefault string yaml
  | NoName attr
  | NoDescription string
  | NoOwner string
  | NoExpiry string
  | ShouldNeverExpire
  | Expired string string
  | ExpiresFarInFuture string string
  | NoMoreThanTwoQuarters
  | TooLong
  | Warning string

text \<open>The script's globals \<^verbatim>\<open>error\<close> and \<^verbatim>\<open>experiment_annotation\<close>, and the
  standard output.\<close>

record vstate =
  error :: bool
  experiment_annotation :: string
  stdout :: "message list"

definition print :: "message \<Rightarrow> vstate \<Rightarrow> vstate" where
  "print m st = st\<lparr>stdout := stdout st @ [m]\<rparr>"

text \<open>\<^verbatim>\<open>print(...); error = True\<close>.\<close>

definition report :: "message \<Rightarrow> vstate \<Rightarrow> vstate" where
  "report m st = (print m st)\<lparr>error := True\<rparr>"

definition two_quarters_from_now :: "date \<Rightarrow> py_error + date" where
  "two_quarters_from_now today = add_days today 180"

text \<open>Lines 80-90, the body of the loop over the rollouts. Line 81 prints \<^verbatim>\<open>attr\<close>, a
  name that line 91 binds later: at line 81 it is unbound and the script raises NameError.
  Line 87 reads \<^verbatim>\<open>rollout_attr['default']\<close> also after line 85 found it missing.\<close>

definition check_rollout :: "rollout_attr \<Rightarrow> vstate \<Rightarrow> py_error + vstate" where
  "check_rollout r st =
     (case rollout_name r of
        None \<Rightarrow> Inl NameError
      | Some n \<Rightarrow>
          (let st1 = (if default r = None then report (NoDefault n) st else st)
           in case default r of
                None \<Rightarrow> Inl KeyError
              | Some d \<Rightarrow>
                  if dict_get DEFAULTS d = None
                  then Inr (report (InvalidDefault n d) st1)
                  else Inr st1))"

text \<open>Lines 92-121, the body of the loop over the experiments. Lines 106 and 110 read
  \<^verbatim>\<open>attr['expiry']\<close> also after line 102 found it missing; line 110 lets the ValueError
  of \<^verbatim>\<open>strptime\<close> through; line 121 is inside \<^verbatim>\<open>if check_dates:\<close>.\<close>

definition check_attr :: "bool \<Rightarrow> date \<Rightarrow> date \<Rightarrow> attr \<Rightarrow> vstate \<Rightarrow> py_error + vstate" where
  "check_attr check_dates today two_quarters a st =
     (case name a of
        None \<Rightarrow> Inr (report (NoName a) st)
      | Some n \<Rightarrow>
          (let st1 = (if description a = None then report (NoDescription n) st else st);
               st2 = (if owner a = None then report (NoOwner n) st1 else st1);
               st3 = (if expiry a = None then report (NoExpiry n) st2 else st2)
           in case expiry a of
                None \<Rightarrow> Inl KeyError
              | Some e \<Rightarrow>
                  if n = ''monitoring_experiment'' then
                    (if e \<noteq> ''never-ever'' then Inr (report ShouldNeverExpire st3)
                     else Inr st3)
                  else
                    (case strptime e of
                       Inl err \<Rightarrow> Inl err
                     | Inr expiry_date \<Rightarrow>
                         if check_dates then
                           (let st4 = (if expiry_date < today
                                       then report (Expired n e) st3 else st3);
                                st5 = (if expiry_date > two_quarters
                                       then report NoMoreThanTwoQuarters
                                              (print (ExpiresFarInFuture n e) st4)
                                       else st4)
                            in Inr (st5\<lparr>experiment_annotation :=
                                          experiment_annotation st5 @ n @ '':0,''\<rparr>))
                         else Inr st3)))"

text \<open>Lines 75-125: both loops and the check of the length of the annotation.\<close>

definition validate :: "bool \<Rightarrow> date \<Rightarrow> attr list \<Rightarrow> rollout_attr list \<Rightarrow> py_error + vstate" where
  "validate check_dates today attrs rollouts =
     (case two_quarters_from_now today of
        Inl e \<Rightarrow> Inl e
      | Inr two_quarters \<Rightarrow>
          (case for_each check_rollout rollouts
                  \<lparr>error = False, experiment_annotation = ''gRPC experiments:'', stdout = []\<rparr> of
             Inl e \<Rightarrow> Inl e
           | Inr st \<Rightarrow>
               (case for_each (check_attr check_dates today two_quarters) attrs st of
                  Inl e \<Rightarrow> Inl e
                | Inr st' \<Rightarrow>
                    Inr (if length (experiment_annotation st') > 2000
                         then report TooLong st' else st'))))"

subsection \<open>The library: strings\<close>

text \<open>Sequencing with exceptions, and \<^verbatim>\<open>d['k']\<close> on a record of a document.\<close>

definition and_then :: "py_error + 'a \<Rightarrow> ('a \<Rightarrow> py_error + 'b) \<Rightarrow> py_error + 'b" where
  "and_then m f = (case m of Inl e \<Rightarrow> Inl e | Inr x \<Rightarrow> f x)"

definition item :: "'a option \<Rightarrow> py_error + 'a" where
  "item v = (case v of None \<Rightarrow> Inl KeyError | Some x \<Rightarrow> Inr x)"

definition code :: "char \<Rightarrow> nat" where
  "code c = of_char c"

text \<open>A string whose characters may lie beyond code point 255, as the list of its code
  points; \<open>unicode_of\<close> reads a string of the model as such.\<close>

type_synonym unicode = "nat list"

definition unicode_of :: "string \<Rightarrow> unicode" where
  "unicode_of s = map code s"

text \<open>The Unicode case mappings of the characters below code point 256, as \<^verbatim>\<open>str.upper\<close>,
  \<^verbatim>\<open>str.lower\<close> and \<^verbatim>\<open>str.title\<close> apply them to one character. The lower-case
  letters are a-z and U+00E0-U+00FE without the division sign U+00F7, 32 above their
  upper-case letters; the micro sign U+00B5 goes to U+039C and U+00FF to U+0178; the sharp
  s U+00DF goes to \<^verbatim>\<open>SS\<close> in upper case and to \<^verbatim>\<open>Ss\<close> in title case. The upper-case
  letters are A-Z and U+00C0-U+00DE without the multiplication sign U+00D7.\<close>

definition upper_char :: "char \<Rightarrow> unicode" where
  "upper_char c =
     (let n = code c in
      if (97 \<le> n \<and> n \<le> 122) \<or> (224 \<le> n \<and> n \<le> 254 \<and> n \<noteq> 247) then [n - 32]
      else if n = 181 then [924]
      else if n = 223 then [83, 83]
      else if n = 255 then [376]
      else [n])"

definition title_char :: "char \<Rightarrow> unicode" where
  "title_char c = (if code c = 223 then [83, 115] else upper_char c)"

definition lower_char :: "char \<Rightarrow> nat" where
  "lower_char c =
     (let n = code c in
      if (65 \<le> n \<and> n \<le> 90) \<or> (192 \<le> n \<and> n \<le> 222 \<and> n \<noteq> 215) then n + 32 else n)"

definition upper :: "string \<Rightarrow> unicode" where
  "upper s = concat (map upper_char s)"

text \<open>\<^verbatim>\<open>s.capitalize()\<close>: the first character in title case, the others in lower case.\<close>

definition capitalize :: "string \<Rightarrow> unicode" where
  "capitalize s = (case s of [] \<Rightarrow> [] | c # cs \<Rightarrow> title_char c @ map lower_char cs)"

text \<open>\<^verbatim>\<open>s.split(sep)\<close> for a separator of one character.\<close>

fun str_split :: "char \<Rightarrow> string \<Rightarrow> string list" where
  "str_split sep [] = [[]]"
| "str_split sep (c # cs) =
     (if c = sep then [] # str_split sep cs
      else (case str_split sep cs of w # ws \<Rightarrow> (c # w) # ws | [] \<Rightarrow> [[c]]))"

text \<open>\<^verbatim>\<open>s.rstrip()\<close>: the whitespace of \<^verbatim>\<open>str.isspace\<close> below code point 256.\<close>

definition is_space :: "char \<Rightarrow> bool" where
  "is_space c = (code c \<in> {9, 10, 11, 12, 13, 28, 29, 30, 31, 32, 133, 160})"

definition rstrip :: "string \<Rightarrow> string" where
  "rstrip s = rev (dropWhile is_space (rev s))"

definition digit_char :: "nat \<Rightarrow> char" where
  "digit_char n = char_of (48 + n)"

text \<open>\<^verbatim>\<open>'%d' % n\<close> and \<^verbatim>\<open>'%03o' % n\<close> for a natural number.\<close>

fun format_d :: "nat \<Rightarrow> string" where
  "format_d n = (if n < 10 then [digit_char n] else format_d (n div 10) @ [digit_char (n mod 10)])"

fun format_o :: "nat \<Rightarrow> string" where
  "format_o n = (if n < 8 then [digit_char n] else format_o (n div 8) @ [digit_char (n mod 8)])"

definition format_03o :: "nat \<Rightarrow> string" where
  "format_03o n = replicate (3 - length (format_o n)) CHR ''0'' @ format_o n"

text \<open>\<^verbatim>\<open>fmt % arg\<close> for a format with one \<^verbatim>\<open>%s\<close>.\<close>

fun percent_s :: "string \<Rightarrow> unicode \<Rightarrow> unicode" where
  "percent_s [] arg = []"
| "percent_s [c] arg = [code c]"
| "percent_s (c # d # cs) arg =
     (if c = CHR ''%'' \<and> d = CHR ''s'' then arg @ unicode_of cs
      else code c # percent_s (d # cs) arg)"

subsection \<open>Lines 131-145: \<^verbatim>\<open>c_str\<close> and \<^verbatim>\<open>snake_to_pascal\<close>\<close>

text \<open>\<^verbatim>\<open>s.encode('ascii')\<close>: the bytes of \<open>s\<close> are its characters, and a character
  from code point 128 on raises UnicodeEncodeError. The script calls \<^verbatim>\<open>c_str\<close> on
  \<^verbatim>\<open>str\<close> values only.\<close>

definition encode_ascii :: "string \<Rightarrow> py_error + string" where
  "encode_ascii s = (if list_all (\<lambda>c. code c < 128) s then Inr s else Inl UnicodeEncodeError)"

text \<open>Lines 136-140, the body of the loop of \<^verbatim>\<open>c_str\<close>.\<close>

definition c_str_char :: "char \<Rightarrow> string \<Rightarrow> string" where
  "c_str_char c result =
     (if \<not> (32 \<le> code c \<and> code c < 127) \<or> c \<in> {CHR 0x5C, CHR 0x22}
      then result @ CHR 0x5C # format_03o (code c)
      else result @ [c])"

definition c_str :: "string \<Rightarrow> py_error + string" where
  "c_str s =
     and_then (encode_ascii s) (\<lambda>bytes. Inr ([CHR 0x22] @ fold c_str_char bytes [] @ [CHR 0x22]))"

definition snake_to_pascal :: "string \<Rightarrow> unicode" where
  "snake_to_pascal s = concat (map capitalize (str_split CHR ''_'' s))"

subsection \<open>Lines 148-182: banners and the rollout of an experiment\<close>

text \<open>\<^verbatim>\<open>put_banner\<close> is always called with one file: the lines it prints there.\<close>

definition put_banner :: "string list \<Rightarrow> string \<Rightarrow> string list" where
  "put_banner banner prefix =
     map (\<lambda>line. if line = [] then prefix else prefix @ '' '' @ line) banner @ [[]]"

text \<open>\<^verbatim>\<open>put_copyright\<close> reads the script itself (\<^verbatim>\<open>sys.argv[0]\<close>). Its three loops
  share one iterator over the lines and stop within the first sixteen, which are
  \<open>my_source\<close>. A line read from a file is never empty, so \<^verbatim>\<open>line[0]\<close> does not raise.\<close>

definition my_source :: "string list" where
  \<open>my_source =
     [''#!/usr/bin/env python3\<newline>'',
      ''\<newline>'',
      ''# Copyright 2022 gRPC authors.\<newline>'',
      ''#\<newline>'',
      ''# Licensed under the Apache License, Version 2.0 (the "License");\<newline>'',
      ''# you may not use this file except in compliance with the License.\<newline>'',
      ''# You may obtain a copy of the License at\<newline>'',
      ''#\<newline>'',
      ''#     http://www.apache.org/licenses/LICENSE-2.0\<newline>'',
      ''#\<newline>'',
      ''# Unless required by applicable law or agreed to in writing, software\<newline>'',
      ''# distributed under the License is distributed on an "AS IS" BASIS,\<newline>'',
      ''# WITHOUT WARRANTIES OR CONDITIONS OF ANY KIND, either express or implied.\<newline>'',
      ''# See the License for the specific language governing permissions and\<newline>'',
      ''# limitations under the License.\<newline>'',
      ''"""\<newline>'']\<close>

definition starts_with_hash :: "string \<Rightarrow> bool" where
  "starts_with_hash line = (case line of [] \<Rightarrow> False | c # _ \<Rightarrow> c = CHR ''#'')"

definition copyright :: "string list \<Rightarrow> string list" where
  "copyright source =
     (let after_first = drop 1 (dropWhile starts_with_hash source);
          at_hash = dropWhile (\<lambda>line. \<not> starts_with_hash line) after_first
      in take 1 at_hash @ takeWhile starts_with_hash (drop 1 at_hash))"

definition put_copyright :: "string \<Rightarrow> string list" where
  "put_copyright prefix =
     put_banner (map (\<lambda>line. rstrip (drop 2 line)) (copyright my_source)) prefix"

text \<open>Lines 177-182. The rollout made up for an experiment that has none holds the string
  \<^verbatim>\<open>'false'\<close>, where a document's \<^verbatim>\<open>default: false\<close> is the boolean.\<close>

fun get_rollout_attr_for_experiment ::
  "rollout_attr list \<Rightarrow> string \<Rightarrow> py_error + (message list \<times> rollout_attr)" where
  "get_rollout_attr_for_experiment [] n =
     Inr ([Warning n], \<lparr>rollout_name = Some n, default = Some (YStr ''false'')\<rparr>)"
| "get_rollout_attr_for_experiment (r # rs) n =
     and_then (item (rollout_name r))
       (\<lambda>rn. if rn = n then Inr ([], r) else get_rollout_attr_for_experiment rs n)"

subsection \<open>Lines 185-263: \<^verbatim>\<open>experiments.h\<close>\<close>

text \<open>\<^verbatim>\<open>WTF.splitlines()\<close>.\<close>

definition WTF :: "string list" where
  \<open>WTF =
     ['''',
      ''This file contains the autogenerated parts of the experiments API.'',
      '''',
      ''It generates two symbols for each experiment.'',
      '''',
      ''For the experiment named new_car_project, it generates:'',
      '''',
      ''- a function IsNewCarProjectEnabled() that returns true if the experiment'',
      ''  should be enabled at runtime.'',
      '''',
      ''- a macro GRPC_EXPERIMENT_IS_INCLUDED_NEW_CAR_PROJECT that is defined if the'',
      ''  experiment *could* be enabled at runtime.'',
      '''',
      ''The function is used to determine whether to run the experiment or'',
      ''non-experiment code path.'',
      '''',
      ''If the experiment brings significant bloat, the macro can be used to avoid'',
      ''including the experiment code path in the binary for binaries that are size'',
      ''sensitive.'',
      '''',
      ''By default that includes our iOS and Android builds.'',
      '''',
      ''Finally, a small array is included that contains the metadata for each'',
      ''experiment.'',
      '''',
      ''A macro, GRPC_EXPERIMENTS_ARE_FINAL, controls whether we fix experiment'',
      ''configuration at build time (if it's defined) or allow it to be tuned at'',
      ''runtime (if it's disabled).'',
      '''',
      ''If you are using the Bazel build system, that macro can be configured with'',
      ''--define=grpc_experiments_are_final=true'']\<close>

text \<open>The standard output and the lines of the file being written; the lines of
  \<^verbatim>\<open>experiments.h\<close> are lists of code points.\<close>

type_synonym out = "message list \<times> string list"

type_synonym out_h = "message list \<times> unicode list"

text \<open>Lines 238-246, the body of the loop under \<^verbatim>\<open>GRPC_EXPERIMENTS_ARE_FINAL\<close>.\<close>

definition final_entry :: "rollout_attr list \<Rightarrow> attr \<Rightarrow> out_h \<Rightarrow> py_error + out_h" where
  "final_entry rollouts a out =
     and_then (item (name a)) (\<lambda>n.
     and_then (get_rollout_attr_for_experiment rollouts n) (\<lambda>(warned, r).
     and_then (item (default r)) (\<lambda>d.
     and_then (subscript FINAL_DEFINE d) (\<lambda>define_fmt.
     and_then (subscript FINAL_RETURN d) (\<lambda>final_return.
       Inr (fst out @ warned,
            snd out
            @ (case define_fmt of
                 None \<Rightarrow> []
               | Some fmt \<Rightarrow>
                   if fmt = [] then []
                   else [percent_s fmt (unicode_of ''GRPC_EXPERIMENT_IS_INCLUDED_'' @ upper n)])
            @ [unicode_of ''inline bool Is'' @ snake_to_pascal n
               @ unicode_of (''Enabled() { '' @ final_return @ '' }'')]))))))"

text \<open>Lines 249-253, the body of the loop of the other branch, over \<^verbatim>\<open>enumerate(attrs)\<close>.\<close>

definition tunable_entry :: "nat \<times> attr \<Rightarrow> out_h \<Rightarrow> py_error + out_h" where
  "tunable_entry ia out =
     and_then (item (name (snd ia))) (\<lambda>n.
       Inr (fst out,
            snd out
            @ [unicode_of ''#define GRPC_EXPERIMENT_IS_INCLUDED_'' @ upper n,
               unicode_of ''inline bool Is'' @ snake_to_pascal n
               @ unicode_of
                   (''Enabled() { return IsExperimentEnabled('' @ format_d (fst ia) @ ''); }'')]))"

definition experiments_h_head :: "string list" where
  \<open>experiments_h_head =
     put_copyright ''//''
     @ put_banner
         (''Automatically generated by tools/codegen/core/gen_experiments.py'' # WTF) ''//''
     @ [''#ifndef GRPC_SRC_CORE_LIB_EXPERIMENTS_EXPERIMENTS_H'',
        ''#define GRPC_SRC_CORE_LIB_EXPERIMENTS_EXPERIMENTS_H'',
        [],
        ''#include <grpc/support/port_platform.h>'',
        [],
        ''#include <stddef.h>'',
        ''#include "src/core/lib/experiments/config.h"'',
        [],
        ''namespace grpc_core {'',
        [],
        ''#ifdef GRPC_EXPERIMENTS_ARE_FINAL'']\<close>

definition experiments_h ::
  "attr list \<Rightarrow> rollout_attr list \<Rightarrow> message list \<Rightarrow> py_error + out_h" where
  "experiments_h attrs rollouts printed =
     and_then (for_each (final_entry rollouts) attrs (printed, map unicode_of experiments_h_head))
       (\<lambda>out1.
     and_then (for_each tunable_entry (List.enumerate 0 attrs)
                 (fst out1, snd out1 @ [unicode_of ''#else'']))
       (\<lambda>out2.
       Inr (fst out2,
            snd out2
            @ map unicode_of
                [[],
                 ''constexpr const size_t kNumExperiments = '' @ format_d (length attrs) @ '';'',
                 ''extern const ExperimentMetadata g_experiment_metadata[kNumExperiments];'',
                 [],
                 ''#endif'',
                 ''}  // namespace grpc_core'',
                 [],
                 ''#endif  // GRPC_SRC_CORE_LIB_EXPERIMENTS_EXPERIMENTS_H''])))"

subsection \<open>Lines 265-311: \<^verbatim>\<open>experiments.cc\<close>\<close>

text \<open>Lines 279-284, the body of the first loop.\<close>

definition description_entry :: "attr \<Rightarrow> out \<Rightarrow> py_error + out" where
  \<open>description_entry a out =
     and_then (item (name a)) (\<lambda>n.
     and_then (item (description a)) (\<lambda>d.
     and_then (c_str d) (\<lambda>quoted.
       Inr (fst out,
            snd out
            @ [''const char* const description_'' @ n @ '' = '' @ quoted @ '';'',
               ''const char* const additional_constraints_'' @ n @ '' = "";'']))))\<close>

text \<open>Lines 285-286: the values of \<^verbatim>\<open>DEFAULTS\<close> at the defaults of all rollouts; the
  script makes a set of them and only asks for membership.\<close>

definition have_defaults :: "rollout_attr list \<Rightarrow> py_error + string list" where
  "have_defaults rollouts =
     for_each
       (\<lambda>r seen. and_then (item (default r)) (\<lambda>d.
                  and_then (subscript DEFAULTS d) (\<lambda>v. Inr (seen @ [v]))))
       rollouts []"

text \<open>Lines 287-294; the three inner tests repeat the outer one.\<close>

definition debug_only_lines :: "string list \<Rightarrow> string list" where
  "debug_only_lines seen =
     (if ''kDefaultForDebugOnly'' \<in> set seen
      then [''#ifdef NDEBUG'',
            ''const bool kDefaultForDebugOnly = false;'',
            ''#else'',
            ''const bool kDefaultForDebugOnly = true;'',
            ''#endif'']
      else [])"

text \<open>Lines 301-307, the body of the loop over the metadata;
  \<^verbatim>\<open>attr.get('allow_in_fuzzing_config', True)\<close> is true when the key is absent.\<close>

definition metadata_entry :: "rollout_attr list \<Rightarrow> attr \<Rightarrow> out \<Rightarrow> py_error + out" where
  "metadata_entry rollouts a out =
     and_then (item (name a)) (\<lambda>n.
     and_then (get_rollout_attr_for_experiment rollouts n) (\<lambda>(warned, r).
     and_then (c_str n) (\<lambda>quoted.
     and_then (item (default r)) (\<lambda>d.
     and_then (subscript DEFAULTS d) (\<lambda>default_value.
       Inr (fst out @ warned,
            snd out
            @ [''  {'' @ quoted @ '', description_'' @ n @ '', additional_constraints_'' @ n
               @ '', '' @ default_value @ '', ''
               @ (if (case allow_in_fuzzing_config a of None \<Rightarrow> True | Some b \<Rightarrow> b)
                  then ''true'' else ''false'')
               @ ''},'']))))))"

definition experiments_cc_head :: "string list" where
  \<open>experiments_cc_head =
     put_copyright ''//''
     @ put_banner [''Automatically generated by tools/codegen/core/gen_experiments.py''] ''//''
     @ [''#include <grpc/support/port_platform.h>'',
        ''#include "src/core/lib/experiments/experiments.h"'',
        [],
        ''#ifndef GRPC_EXPERIMENTS_ARE_FINAL'',
        ''namespace {'']\<close>

definition experiments_cc :: "attr list \<Rightarrow> rollout_attr list \<Rightarrow> message list \<Rightarrow> py_error + out" where
  "experiments_cc attrs rollouts printed =
     and_then (for_each description_entry attrs (printed, experiments_cc_head)) (\<lambda>out1.
     and_then (have_defaults rollouts) (\<lambda>seen.
     and_then (for_each (metadata_entry rollouts) attrs
                 (fst out1,
                  snd out1 @ debug_only_lines seen
                  @ [''}'',
                     [],
                     ''namespace grpc_core {'',
                     [],
                     ''const ExperimentMetadata g_experiment_metadata[] = {'']))
       (\<lambda>out2.
       Inr (fst out2, snd out2 @ [''};'', [], ''}  // namespace grpc_core'', ''#endif'']))))"

subsection \<open>Lines 313-350: \<^verbatim>\<open>experiments.bzl\<close>\<close>

text \<open>A \<^verbatim>\<open>defaultdict(list)\<close> from tags to names, in the order the tags came:
  \<^verbatim>\<open>d[tag].append(n)\<close>.\<close>

type_synonym tags_to_experiments = "(string \<times> string list) list"

fun append_to :: "string \<Rightarrow> string \<Rightarrow> tags_to_experiments \<Rightarrow> tags_to_experiments" where
  "append_to tag n [] = [(tag, [n])]"
| "append_to tag n ((t, ns) # d) =
     (if t = tag then (t, ns @ [n]) # d else (t, ns) # append_to tag n d)"

text \<open>\<^verbatim>\<open>d[k]\<close> followed by a change of the value found: KeyError when \<open>k\<close> is no key.\<close>

fun dict_update :: "yaml \<Rightarrow> ('v \<Rightarrow> 'v) \<Rightarrow> (yaml \<times> 'v) list \<Rightarrow> py_error + (yaml \<times> 'v) list" where
  "dict_update k f [] = Inl KeyError"
| "dict_update k f ((k', v) # d) =
     (if py_eq k' k then Inr ((k', f v) # d)
      else and_then (dict_update k f d) (\<lambda>d'. Inr ((k', v) # d')))"

text \<open>Lines 313-315: one empty dict for each key of \<^verbatim>\<open>BZL_LIST_FOR_DEFAULTS\<close> (no key is
  \<^verbatim>\<open>None\<close>).\<close>

definition bzl_to_tags_to_experiments :: "(yaml \<times> tags_to_experiments) list" where
  "bzl_to_tags_to_experiments = map (\<lambda>kv. (fst kv, [])) BZL_LIST_FOR_DEFAULTS"

text \<open>Lines 318-321, the body of the loop that fills it.\<close>

definition collect_tags ::
  "rollout_attr list \<Rightarrow> attr \<Rightarrow> message list \<times> (yaml \<times> tags_to_experiments) list
     \<Rightarrow> py_error + message list \<times> (yaml \<times> tags_to_experiments) list" where
  "collect_tags rollouts a st =
     and_then (item (name a)) (\<lambda>n.
     and_then (get_rollout_attr_for_experiment rollouts n) (\<lambda>(warned, r).
     and_then (item (test_tags a)) (\<lambda>tags.
     and_then (for_each (\<lambda>tag bzl. and_then (item (default r))
                                      (\<lambda>d. dict_update d (append_to tag n) bzl))
                 tags (snd st))
       (\<lambda>bzl. Inr (fst st @ warned, bzl)))))"

text \<open>Lines 335-338: the dicts whose key has a list name, sorted by that name. The names
  differ, so the order never depends on the dicts.\<close>

definition sorted_bzl :: "(yaml \<times> tags_to_experiments) list \<Rightarrow> (string \<times> tags_to_experiments) list" where
  "sorted_bzl bzl =
     sort_key fst
       (concat (map (\<lambda>kv. case dict_get BZL_LIST_FOR_DEFAULTS (fst kv) of
                             Some (Some list_name) \<Rightarrow> [(list_name, snd kv)]
                           | _ \<Rightarrow> [])
                    bzl))"

definition experiments_bzl :: "(yaml \<times> tags_to_experiments) list \<Rightarrow> string list" where
  \<open>experiments_bzl bzl =
     put_copyright ''#''
     @ put_banner [''Automatically generated by tools/codegen/core/gen_experiments.py''] ''#''
     @ [''"""Dictionary of tags to experiments so we know when to test different experiments."""'',
        [],
        ''EXPERIMENTS = {'']
     @ concat (map (\<lambda>kt.
          [''    "'' @ fst kt @ ''": {'']
          @ concat (map (\<lambda>te.
               [''        "'' @ fst te @ ''": ['']
               @ map (\<lambda>experiment_name. ''            "'' @ experiment_name @ ''",'') (sort (snd te))
               @ [''        ],''])
               (sort_key fst (snd kt)))
          @ [''    },''])
          (sorted_bzl bzl))
     @ [''}'']\<close>

subsection \<open>The whole script\<close>

record artifacts =
  printed :: "message list"
  experiments_h_file :: "unicode list"
  experiments_cc_file :: "string list"
  experiments_bzl_file :: "string list"

text \<open>Lines 218-350: what runs when validation found no error.\<close>

definition render :: "attr list \<Rightarrow> rollout_attr list \<Rightarrow> message list \<Rightarrow> py_error + artifacts" where
  "render attrs rollouts printed0 =
     and_then (experiments_h attrs rollouts printed0) (\<lambda>h.
     and_then (experiments_cc attrs rollouts (fst h)) (\<lambda>c.
     and_then (for_each (collect_tags rollouts) attrs (fst c, bzl_to_tags_to_experiments)) (\<lambda>b.
       Inr \<lparr>printed = fst b,
            experiments_h_file = snd h,
            experiments_cc_file = snd c,
            experiments_bzl_file = experiments_bzl (snd b)\<rparr>)))"

text \<open>Lines 127-128 are \<^verbatim>\<open>if error: sys.exit(1)\<close>.\<close>

definition run :: "bool \<Rightarrow> date \<Rightarrow> attr list \<Rightarrow> rollout_attr list \<Rightarrow> py_error + artifacts" where
  "run check_dates today attrs rollouts =
     and_then (validate check_dates today attrs rollouts) (\<lambda>st.
       if error st then Inl (SystemExit 1) else render attrs rollouts (stdout st))"

subsection \<open>Notions used in the statements\<close>

text \<open>What line 121 adds to the annotation for one experiment, when its checks return.\<close>

definition annotated :: "bool \<Rightarrow> attr \<Rightarrow> string" where
  "annotated check_dates a =
     (case name a of
        None \<Rightarrow> []
      | Some n \<Rightarrow> if check_dates \<and> n \<noteq> ''monitoring_experiment'' then n @ '':0,'' else [])"

text \<open>The escape of one character as C10 words it: a backslash and three octal digits for a
  code outside 32-126, for the backslash and for the double quote; the character itself
  otherwise.\<close>

definition octal_escape :: "char \<Rightarrow> string" where
  "octal_escape c =
     (if code c < 32 \<or> 126 < code c \<or> c = CHR 0x5C \<or> c = CHR 0x22
      then [CHR 0x5C, digit_char (code c div 64), digit_char (code c div 8 mod 8),
            digit_char (code c mod 8)]
      else [c])"

text \<open>The names of the experiments, and a rollout whose name is one of them.\<close>

definition experiment_names :: "attr list \<Rightarrow> string set" where
  "experiment_names attrs = set (List.map_filter name attrs)"

definition matched :: "attr list \<Rightarrow> rollout_attr \<Rightarrow> bool" where
  "matched attrs r =
     (case rollout_name r of None \<Rightarrow> False | Some n \<Rightarrow> n \<in> experiment_names attrs)"

text \<open>Two rollout documents that differ only by records that satisfy \<open>P\<close>: each is the
  other with such records added or removed, and the records they share are the same, in
  the same order.\<close>

inductive differ_by ::
  "(rollout_attr \<Rightarrow> bool) \<Rightarrow> rollout_attr list \<Rightarrow> rollout_attr list \<Rightarrow> bool"
  for P :: "rollout_attr \<Rightarrow> bool" where
  both_end: "differ_by P [] []"
| shared: "differ_by P rs rs' \<Longrightarrow> differ_by P (r # rs) (r # rs')"
| only_left: "P r \<Longrightarrow> differ_by P rs rs' \<Longrightarrow> differ_by P (r # rs) rs'"
| only_right: "P r \<Longrightarrow> differ_by P rs rs' \<Longrightarrow> differ_by P rs (r # rs')"

code_pred differ_by .

text \<open>A rollout whose default is there and is a key of \<^verbatim>\<open>DEFAULTS\<close>, so that line 286
  does not raise on it.\<close>

definition default_ok :: "rollout_attr \<Rightarrow> bool" where
  "default_ok r = (case default r of None \<Rightarrow> False | Some d \<Rightarrow> dict_get DEFAULTS d \<noteq> None)"

text \<open>A rollout that passes lines 80-90 without a message: it has a name and a default,
  and the default is a key of \<^verbatim>\<open>DEFAULTS\<close>.\<close>

definition valid_rollout :: "rollout_attr \<Rightarrow> bool" where
  "valid_rollout r =
     (rollout_name r \<noteq> None \<and>
      (case default r of None \<Rightarrow> False | Some d \<Rightarrow> dict_get DEFAULTS d \<noteq> None))"

text \<open>Some rollout of the document has the default \<^verbatim>\<open>debug\<close>.\<close>

definition has_debug :: "rollout_attr list \<Rightarrow> bool" where
  "has_debug rollouts = (Some (YStr ''debug'') \<in> default ` set rollouts)"

text \<open>Lines 285-294 as a whole: what they print, or the KeyError of line 286.\<close>

definition debug_block :: "rollout_attr list \<Rightarrow> py_error + string list" where
  "debug_block rollouts = and_then (have_defaults rollouts) (\<lambda>seen. Inr (debug_only_lines seen))"

section \<open>Properties of validation\<close>





text \<open>
  C2. Validation raises partway. A rollout without a name raises NameError at line 81
  (the message names \<^verbatim>\<open>attr\<close>, which is not bound yet); a rollout without a default
  and an experiment without an expiry raise KeyError at lines 87 and 110, right after the
  script has reported them; an expiry that is no date raises ValueError at line 110. In
  each of the four runs the record that follows, which has a violation of its own, is never
  checked.
\<close>

theorem validation_raises_partway:
  "validate True 738463 []
     [\<lparr>rollout_name = None, default = Some (YBool True)\<rparr>,
      \<lparr>rollout_name = Some ''b'', default = Some (YStr ''maybe'')\<rparr>] = Inl NameError
   \<and> validate True 738463 []
     [\<lparr>rollout_name = Some ''a'', default = None\<rparr>,
      \<lparr>rollout_name = Some ''b'', default = Some (YStr ''maybe'')\<rparr>] = Inl KeyError
   \<and> validate True 738463
     [\<lparr>name = Some ''a'', description = Some ''d'', owner = Some ''o'',
       expiry = None, test_tags = Some [], allow_in_fuzzing_config = None\<rparr>,
      \<lparr>name = Some ''b'', description = None, owner = Some ''o'',
       expiry = Some ''2022/12/01'', test_tags = Some [], allow_in_fuzzing_config = None\<rparr>]
     [] = Inl KeyError
   \<and> validate True 738463
     [\<lparr>name = Some ''a'', description = Some ''d'', owner = Some ''o'',
       expiry = Some ''next year'', test_tags = Some [], allow_in_fuzzing_config = None\<rparr>,
      \<lparr>name = Some ''b'', description = None, owner = Some ''o'',
       expiry = Some ''2022/12/01'', test_tags = Some [], allow_in_fuzzing_config = None\<rparr>]
     [] = Inl ValueError"
  by code_simp

subsection \<open>The annotation\<close>

lemma check_rollout_keeps:
  assumes "check_rollout r st = Inr st'"
  shows "experiment_annotation st' = experiment_annotation st"
    and "TooLong \<in> set (stdout st') \<longleftrightarrow> TooLong \<in> set (stdout st)"
  using assms
  by (auto simp: check_rollout_def report_def print_def Let_def
      split: option.splits if_splits)

lemma check_rollouts_keep:
  assumes "for_each check_rollout rs st = Inr st'"
  shows "experiment_annotation st' = experiment_annotation st
    \<and> (TooLong \<in> set (stdout st') \<longleftrightarrow> TooLong \<in> set (stdout st))"
  using assms
proof (induction rs arbitrary: st)
  case Nil
  then show ?case by simp
next
  case (Cons r rs)
  then obtain st1 where 1: "check_rollout r st = Inr st1"
    and 2: "for_each check_rollout rs st1 = Inr st'"
    by (auto split: sum.splits)
  from Cons.IH [OF 2] check_rollout_keeps [OF 1] show ?case by simp
qed

lemma check_attr_annotation:
  assumes "check_attr cd today tq a st = Inr st'"
  shows "experiment_annotation st' = experiment_annotation st @ annotated cd a"
    and "TooLong \<in> set (stdout st') \<longleftrightarrow> TooLong \<in> set (stdout st)"
  using assms
  by (auto simp: check_attr_def report_def print_def Let_def annotated_def
      split: option.splits if_splits sum.splits)

lemma check_attrs_annotation:
  assumes "for_each (check_attr cd today tq) as st = Inr st'"
  shows "experiment_annotation st' = experiment_annotation st @ concat (map (annotated cd) as)
    \<and> (TooLong \<in> set (stdout st') \<longleftrightarrow> TooLong \<in> set (stdout st))"
  using assms
proof (induction as arbitrary: st)
  case Nil
  then show ?case by simp
next
  case (Cons a as)
  then obtain st1 where 1: "check_attr cd today tq a st = Inr st1"
    and 2: "for_each (check_attr cd today tq) as st1 = Inr st'"
    by (auto split: sum.splits)
  from Cons.IH [OF 2] check_attr_annotation [OF 1] show ?case by simp
qed

lemma annotated_names:
  "concat (map (annotated cd) as) =
     (if cd then concat (map (\<lambda>n. n @ '':0,'')
        (filter (\<lambda>n. n \<noteq> ''monitoring_experiment'') (List.map_filter name as))) else [])"
  by (induction as) (auto simp: annotated_def List.map_filter_simps split: option.splits)

text \<open>
  C7, as stated, fails. In strict mode an experiment that fails its date check is in the
  annotation all the same, and the run fails with an annotation of 23 characters; in the
  relaxed mode an experiment that passes every check is not in the annotation.
\<close>

theorem annotation_of_failing_and_relaxed:
  "validate True 738463
     [\<lparr>name = Some ''old'', description = Some ''d'', owner = Some ''o'',
       expiry = Some ''2022/11/03'', test_tags = Some [], allow_in_fuzzing_config = None\<rparr>]
     []
   = Inr \<lparr>error = True, experiment_annotation = ''gRPC experiments:old:0,'',
          stdout = [Expired ''old'' ''2022/11/03'']\<rparr>
   \<and> validate False 738463
     [\<lparr>name = Some ''good'', description = Some ''d'', owner = Some ''o'',
       expiry = Some ''2022/12/01'', test_tags = Some [], allow_in_fuzzing_config = None\<rparr>]
     []
   = Inr \<lparr>error = False, experiment_annotation = ''gRPC experiments:'', stdout = []\<rparr>"
  by code_simp

text \<open>
  C7, amended. When validation returns: in strict mode the annotation is the prefix
  \<^verbatim>\<open>gRPC experiments:\<close> followed by \<^verbatim>\<open>name:0,\<close> for every experiment that has a
  name other than \<^verbatim>\<open>monitoring_experiment\<close>, in the order of the document and whether
  or not its checks reported an error; in the relaxed mode it is the prefix alone. The
  "too long" message is printed exactly when the annotation, prefix included, is longer
  than 2000 characters; it sets the error flag, and a set error flag ends the run with
  exit status 1.
\<close>

theorem annotation_contents:
  assumes "validate check_dates today attrs rollouts = Inr st"
  shows "experiment_annotation st =
           ''gRPC experiments:''
           @ (if check_dates
              then concat (map (\<lambda>n. n @ '':0,'')
                     (filter (\<lambda>n. n \<noteq> ''monitoring_experiment'') (List.map_filter name attrs)))
              else [])
         \<and> (TooLong \<in> set (stdout st) \<longleftrightarrow> 2000 < length (experiment_annotation st))
         \<and> (2000 < length (experiment_annotation st) \<longrightarrow> error st)
         \<and> (error st \<longrightarrow> run check_dates today attrs rollouts = Inl (SystemExit 1))"
proof -
  from assms obtain tq st1 st2 where
    r: "for_each check_rollout rollouts
          \<lparr>error = False, experiment_annotation = ''gRPC experiments:'', stdout = []\<rparr> = Inr st1"
    and a: "for_each (check_attr check_dates today tq) attrs st1 = Inr st2"
    and st: "st = (if length (experiment_annotation st2) > 2000 then report TooLong st2 else st2)"
    by (auto simp: validate_def split: sum.splits)
  from check_rollouts_keep [OF r] check_attrs_annotation [OF a]
  have ann: "experiment_annotation st2 =
      ''gRPC experiments:'' @ concat (map (annotated check_dates) attrs)"
    and no: "TooLong \<notin> set (stdout st2)"
    by simp_all
  have same: "experiment_annotation st = experiment_annotation st2"
    by (simp add: st report_def print_def)
  have 1: ?thesis if "2000 < length (experiment_annotation st2)"
    using that ann same assms
    by (simp add: st report_def print_def annotated_names run_def and_then_def)
  have 2: ?thesis if "\<not> 2000 < length (experiment_annotation st2)"
    using that ann same assms no
    by (simp add: st annotated_names run_def and_then_def)
  from 1 2 show ?thesis by blast
qed

theorem annotation_contents_witness:
  "experiment_annotation
     \<lparr>error = True, experiment_annotation = ''gRPC experiments:old:0,new:0,'',
      stdout = [Expired ''old'' ''2022/11/03'']\<rparr>
   = ''gRPC experiments:'' @ ''old:0,'' @ ''new:0,''
   \<and> run True 738463
     [\<lparr>name = Some ''old'', description = Some ''d'', owner = Some ''o'',
       expiry = Some ''2022/11/03'', test_tags = Some [], allow_in_fuzzing_config = None\<rparr>,
      \<lparr>name = Some ''monitoring_experiment'', description = Some ''d'', owner = Some ''o'',
       expiry = Some ''never-ever'', test_tags = Some [], allow_in_fuzzing_config = None\<rparr>,
      \<lparr>name = Some ''new'', description = Some ''d'', owner = Some ''o'',
       expiry = Some ''2022/12/01'', test_tags = Some [], allow_in_fuzzing_config = None\<rparr>]
     []
   = Inl (SystemExit 1)"
proof -
  have v: "validate True 738463
     [\<lparr>name = Some ''old'', description = Some ''d'', owner = Some ''o'',
       expiry = Some ''2022/11/03'', test_tags = Some [], allow_in_fuzzing_config = None\<rparr>,
      \<lparr>name = Some ''monitoring_experiment'', description = Some ''d'', owner = Some ''o'',
       expiry = Some ''never-ever'', test_tags = Some [], allow_in_fuzzing_config = None\<rparr>,
      \<lparr>name = Some ''new'', description = Some ''d'', owner = Some ''o'',
       expiry = Some ''2022/12/01'', test_tags = Some [], allow_in_fuzzing_config = None\<rparr>]
     []
   = Inr \<lparr>error = True, experiment_annotation = ''gRPC experiments:old:0,new:0,'',
          stdout = [Expired ''old'' ''2022/11/03'']\<rparr>"
    by code_simp
  show ?thesis
    using annotation_contents [OF v] by simp
qed

section \<open>Properties of rendering\<close>

subsection \<open>String literals\<close>

lemma digit_char_0: "digit_char 0 = CHR ''0''"
  by code_simp

lemma format_o_1: "n < 8 \<Longrightarrow> format_o n = [digit_char n]"
  by simp

lemma format_o_2:
  assumes "8 \<le> n" and "n < 64"
  shows "format_o n = [digit_char (n div 8), digit_char (n mod 8)]"
proof -
  from assms have "n div 8 < 8" by simp
  then have "format_o (n div 8) = [digit_char (n div 8)]" by (rule format_o_1)
  with assms show ?thesis by (subst format_o.simps) simp
qed

lemma format_o_3:
  assumes "64 \<le> n" and "n < 512"
  shows "format_o n = [digit_char (n div 64), digit_char (n div 8 mod 8), digit_char (n mod 8)]"
proof -
  from assms have "8 \<le> n div 8" and "n div 8 < 64" by simp_all
  then have "format_o (n div 8) = [digit_char (n div 8 div 8), digit_char (n div 8 mod 8)]"
    by (rule format_o_2)
  moreover have "n div 8 div 8 = n div 64" by (simp add: div_mult2_eq)
  ultimately show ?thesis using assms by (subst format_o.simps) simp
qed

lemma format_03o_digits:
  assumes "n < 512"
  shows "format_03o n = [digit_char (n div 64), digit_char (n div 8 mod 8), digit_char (n mod 8)]"
proof -
  consider "n < 8" | "8 \<le> n" "n < 64" | "64 \<le> n" using assms by linarith
  then show ?thesis
  proof cases
    case 1
    then show ?thesis
      by (simp add: format_03o_def format_o_1 digit_char_0 numeral_2_eq_2 del: format_o.simps)
  next
    case 2
    then show ?thesis
      by (simp add: format_03o_def format_o_2 digit_char_0 del: format_o.simps)
  next
    case 3
    with assms show ?thesis
      by (simp add: format_03o_def format_o_3 del: format_o.simps)
  qed
qed

lemma code_lt_256: "code c < 256"
  by (simp add: code_def)

lemma c_str_char_escape: "c_str_char c result = result @ octal_escape c"
proof -
  have "code c < 512" using code_lt_256 [of c] by simp
  then show ?thesis
    by (auto simp: c_str_char_def octal_escape_def format_03o_digits)
qed

lemma fold_c_str_char: "fold c_str_char s result = result @ concat (map octal_escape s)"
  by (induction s arbitrary: result) (simp_all add: c_str_char_escape)

lemma code_digit_char: "k < 8 \<Longrightarrow> code (digit_char k) = 48 + k"
  by (simp add: code_def digit_char_def)

lemma octal_escape_printable:
  assumes "code c < 128"
  shows "list_all (\<lambda>x. 32 \<le> code x \<and> code x \<le> 126) (octal_escape c)"
proof -
  have "code (CHR 0x5C) = 92" by (simp add: code_def)
  moreover have "code c div 64 < 8" "code c div 8 mod 8 < 8" "code c mod 8 < 8"
    using assms by simp_all
  ultimately show ?thesis
    using assms by (auto simp: octal_escape_def code_digit_char)
qed

text \<open>
  C10, as stated, fails: \<^verbatim>\<open>c_str\<close> does not return for every string. On a string with
  a character from code point 128 on (here U+00E9) \<^verbatim>\<open>s.encode('ascii')\<close> raises.
\<close>

theorem c_str_raises_on_non_ascii:
  "c_str [CHR 0xE9] = Inl UnicodeEncodeError"
  by code_simp

text \<open>
  C10, amended. On a string of ASCII characters (codes below 128) \<^verbatim>\<open>c_str\<close> returns
  the string between double quotes with every character of code below 32 or equal to 127,
  every backslash and every double quote replaced by a backslash and the three octal digits
  of its code, and every other character unchanged; on any other string it raises
  UnicodeEncodeError. Whatever it returns holds printable ASCII only (codes 32-126), so it
  has no line break.
\<close>

theorem c_str_escapes:
  "c_str s =
     (if list_all (\<lambda>c. code c < 128) s
      then Inr ([CHR 0x22] @ concat (map octal_escape s) @ [CHR 0x22])
      else Inl UnicodeEncodeError)
   \<and> (c_str s = Inr quoted \<longrightarrow> list_all (\<lambda>c. 32 \<le> code c \<and> code c \<le> 126) quoted)"
proof -
  have eq: "c_str s =
     (if list_all (\<lambda>c. code c < 128) s
      then Inr ([CHR 0x22] @ concat (map octal_escape s) @ [CHR 0x22])
      else Inl UnicodeEncodeError)"
    by (simp add: c_str_def encode_ascii_def and_then_def fold_c_str_char)
  have "list_all (\<lambda>c. 32 \<le> code c \<and> code c \<le> 126) (concat (map octal_escape s))"
    if "list_all (\<lambda>c. code c < 128) s"
    using that by (induction s) (simp_all add: octal_escape_printable)
  moreover have "code (CHR 0x22) = 34" by (simp add: code_def)
  ultimately show ?thesis
    using eq by (auto split: if_splits)
qed

theorem c_str_escapes_witness:
  "c_str [CHR 0x01, CHR ''a'', CHR 0x7F, CHR 0x5C, CHR 0x22, CHR ''~'']
   = Inr ([CHR 0x22, CHR 0x5C] @ ''001a'' @ [CHR 0x5C] @ ''177'' @ [CHR 0x5C] @ ''134''
          @ [CHR 0x5C] @ ''042~'' @ [CHR 0x22])
   \<and> list_all (\<lambda>c. 32 \<le> code c \<and> code c \<le> 126)
       ([CHR 0x22, CHR 0x5C] @ ''001a'' @ [CHR 0x5C] @ ''177'' @ [CHR 0x5C] @ ''134''
          @ [CHR 0x5C] @ ''042~'' @ [CHR 0x22])"
proof -
  have e: "c_str [CHR 0x01, CHR ''a'', CHR 0x7F, CHR 0x5C, CHR 0x22, CHR ''~'']
   = Inr ([CHR 0x22, CHR 0x5C] @ ''001a'' @ [CHR 0x5C] @ ''177'' @ [CHR 0x5C] @ ''134''
          @ [CHR 0x5C] @ ''042~'' @ [CHR 0x22])"
    by code_simp
  from c_str_escapes [of "[CHR 0x01, CHR ''a'', CHR 0x7F, CHR 0x5C, CHR 0x22, CHR ''~'']"
      "[CHR 0x22, CHR 0x5C] @ ''001a'' @ [CHR 0x5C] @ ''177'' @ [CHR 0x5C] @ ''134''
          @ [CHR 0x5C] @ ''042~'' @ [CHR 0x22]"] e
  show ?thesis by blast
qed

subsection \<open>The fixed mode of \<^verbatim>\<open>experiments.h\<close>\<close>

lemma str_split_no_sep: "sep \<notin> set w \<Longrightarrow> str_split sep w = [w]"
  by (induction w) auto

lemma str_split_sep:
  "sep \<notin> set w \<Longrightarrow> str_split sep (w @ sep # rest) = w # str_split sep rest"
  by (induction w) auto

lemma upper_ascii:
  "list_all (\<lambda>c. code c < 128) s \<Longrightarrow>
   upper s = map (\<lambda>c. if 97 \<le> code c \<and> code c \<le> 122 then code c - 32 else code c) s"
  by (induction s) (auto simp: upper_def upper_char_def Let_def)

text \<open>
  C8. Under \<^verbatim>\<open>GRPC_EXPERIMENTS_ARE_FINAL\<close>, for an experiment named \<open>n\<close> whose rollout
  has the default \<open>d\<close>, what lines 238-246 print is fixed by \<open>d\<close> and \<open>n\<close> alone:
  \<^verbatim>\<open>broken\<close> and \<^verbatim>\<open>false\<close> give no marker and an accessor returning false;
  \<^verbatim>\<open>true\<close> gives the marker and an accessor returning true; \<^verbatim>\<open>debug\<close> gives the
  marker under \<^verbatim>\<open>#ifndef NDEBUG\<close> and an accessor returning false under
  \<^verbatim>\<open>NDEBUG\<close> and true otherwise. The accessor is \<^verbatim>\<open>Is<Name>Enabled\<close> with
  \<^verbatim>\<open><Name>\<close> the words of \<open>n\<close> between underscores, each capitalized and joined; the
  marker is \<^verbatim>\<open>GRPC_EXPERIMENT_IS_INCLUDED_\<close> and \<open>n\<close> in upper case, which for an
  ASCII name turns a-z into A-Z and keeps every other character. The claim does not hold
  of the script for the fifth policy there is: the string \<^verbatim>\<open>'false'\<close> of the rollout made
  up for an experiment that has none, meant as disabled, where line 239 raises KeyError
  and nothing is printed.
\<close>

theorem fixed_mode_entry:
  assumes "name a = Some n"
    and "get_rollout_attr_for_experiment rollouts n = Inr (warned, r)"
    and "default r = Some d"
  shows "(d = YStr ''broken'' \<or> d = YBool False \<longrightarrow>
            final_entry rollouts a (printed0, H) =
              Inr (printed0 @ warned,
                   H @ [unicode_of ''inline bool Is'' @ snake_to_pascal n
                        @ unicode_of ''Enabled() { return false; }'']))
       \<and> (d = YBool True \<longrightarrow>
            final_entry rollouts a (printed0, H) =
              Inr (printed0 @ warned,
                   H @ [unicode_of ''#define GRPC_EXPERIMENT_IS_INCLUDED_'' @ upper n,
                        unicode_of ''inline bool Is'' @ snake_to_pascal n
                        @ unicode_of ''Enabled() { return true; }'']))
       \<and> (d = YStr ''debug'' \<longrightarrow>
            final_entry rollouts a (printed0, H) =
              Inr (printed0 @ warned,
                   H @ [unicode_of ''#ifndef NDEBUG\<newline>#define GRPC_EXPERIMENT_IS_INCLUDED_''
                        @ upper n @ unicode_of ''\<newline>#endif'',
                        unicode_of ''inline bool Is'' @ snake_to_pascal n
                        @ unicode_of ''Enabled() { #ifdef NDEBUG\<newline>return false;\<newline>#else\<newline>return true;\<newline>#endif }'']))
       \<and> (d = YStr ''false'' \<longrightarrow> final_entry rollouts a (printed0, H) = Inl KeyError)
       \<and> (list_all (\<lambda>c. code c < 128) n \<longrightarrow>
            upper n = map (\<lambda>c. if 97 \<le> code c \<and> code c \<le> 122 then code c - 32 else code c) n)
       \<and> (CHR ''_'' \<notin> set n \<longrightarrow> snake_to_pascal n = capitalize n)
       \<and> (\<forall>w rest. n = w @ CHR ''_'' # rest \<and> CHR ''_'' \<notin> set w \<longrightarrow>
            snake_to_pascal n = capitalize w @ snake_to_pascal rest)"
proof -
  have names: "(list_all (\<lambda>c. code c < 128) n \<longrightarrow>
            upper n = map (\<lambda>c. if 97 \<le> code c \<and> code c \<le> 122 then code c - 32 else code c) n)
       \<and> (CHR ''_'' \<notin> set n \<longrightarrow> snake_to_pascal n = capitalize n)
       \<and> (\<forall>w rest. n = w @ CHR ''_'' # rest \<and> CHR ''_'' \<notin> set w \<longrightarrow>
            snake_to_pascal n = capitalize w @ snake_to_pascal rest)"
    by (auto simp: upper_ascii snake_to_pascal_def str_split_no_sep str_split_sep)
  have entry: "(d = YStr ''broken'' \<or> d = YBool False \<longrightarrow>
            final_entry rollouts a (printed0, H) =
              Inr (printed0 @ warned,
                   H @ [unicode_of ''inline bool Is'' @ snake_to_pascal n
                        @ unicode_of ''Enabled() { return false; }'']))
       \<and> (d = YBool True \<longrightarrow>
            final_entry rollouts a (printed0, H) =
              Inr (printed0 @ warned,
                   H @ [unicode_of ''#define GRPC_EXPERIMENT_IS_INCLUDED_'' @ upper n,
                        unicode_of ''inline bool Is'' @ snake_to_pascal n
                        @ unicode_of ''Enabled() { return true; }'']))
       \<and> (d = YStr ''debug'' \<longrightarrow>
            final_entry rollouts a (printed0, H) =
              Inr (printed0 @ warned,
                   H @ [unicode_of ''#ifndef NDEBUG\<newline>#define GRPC_EXPERIMENT_IS_INCLUDED_''
                        @ upper n @ unicode_of ''\<newline>#endif'',
                        unicode_of ''inline bool Is'' @ snake_to_pascal n
                        @ unicode_of ''Enabled() { #ifdef NDEBUG\<newline>return false;\<newline>#else\<newline>return true;\<newline>#endif }'']))
       \<and> (d = YStr ''false'' \<longrightarrow> final_entry rollouts a (printed0, H) = Inl KeyError)"
    using assms
    by (auto simp: final_entry_def and_then_def item_def subscript_def FINAL_DEFINE_def
        FINAL_RETURN_def unicode_of_def)
  from entry names show ?thesis by blast
qed

text \<open>The experiment \<^verbatim>\<open>foo_bar\<close> with the rollout \<^verbatim>\<open>default: true\<close>, and the same
  experiment with no rollout.\<close>

theorem fixed_mode_entry_witness:
  "final_entry [\<lparr>rollout_name = Some ''foo_bar'', default = Some (YBool True)\<rparr>]
     \<lparr>name = Some ''foo_bar'', description = Some ''d'', owner = Some ''o'',
      expiry = Some ''2022/11/14'', test_tags = Some [''core''],
      allow_in_fuzzing_config = None\<rparr> ([], [])
   = Inr ([], [unicode_of ''#define GRPC_EXPERIMENT_IS_INCLUDED_FOO_BAR'',
               unicode_of ''inline bool IsFooBarEnabled() { return true; }''])
   \<and> final_entry []
     \<lparr>name = Some ''foo_bar'', description = Some ''d'', owner = Some ''o'',
      expiry = Some ''2022/11/14'', test_tags = Some [''core''],
      allow_in_fuzzing_config = None\<rparr> ([], [])
   = Inl KeyError"
proof -
  have u: "upper ''foo_bar'' = unicode_of ''FOO_BAR''"
    by code_simp
  have p: "snake_to_pascal ''foo_bar'' = unicode_of ''FooBar''"
    by code_simp
  have g: "get_rollout_attr_for_experiment
      [\<lparr>rollout_name = Some ''foo_bar'', default = Some (YBool True)\<rparr>] ''foo_bar''
    = Inr ([], \<lparr>rollout_name = Some ''foo_bar'', default = Some (YBool True)\<rparr>)"
    by (simp add: and_then_def item_def)
  have g0: "get_rollout_attr_for_experiment [] ''foo_bar''
    = Inr ([Warning ''foo_bar''],
           \<lparr>rollout_name = Some ''foo_bar'', default = Some (YStr ''false'')\<rparr>)"
    by simp
  show ?thesis
    using fixed_mode_entry [OF _ g, of
        "\<lparr>name = Some ''foo_bar'', description = Some ''d'', owner = Some ''o'',
          expiry = Some ''2022/11/14'', test_tags = Some [''core''],
          allow_in_fuzzing_config = None\<rparr>" "YBool True" "[]" "[]"]
      fixed_mode_entry [OF _ g0, of
        "\<lparr>name = Some ''foo_bar'', description = Some ''d'', owner = Some ''o'',
          expiry = Some ''2022/11/14'', test_tags = Some [''core''],
          allow_in_fuzzing_config = None\<rparr>" "YStr ''false''" "[]" "[]"]
    by (simp add: u p unicode_of_def)
qed

subsection \<open>An experiment without a rollout\<close>

lemma get_rollout_unmatched:
  assumes "\<forall>r\<in>set rollouts. rollout_name r \<noteq> Some n"
  shows "get_rollout_attr_for_experiment rollouts n = Inl KeyError
    \<or> get_rollout_attr_for_experiment rollouts n =
        Inr ([Warning n], \<lparr>rollout_name = Some n, default = Some (YStr ''false'')\<rparr>)"
  using assms
  by (induction rollouts) (auto simp: and_then_def item_def split: option.splits)

lemma final_entry_unmatched:
  assumes "name a = Some n" and "\<forall>r\<in>set rollouts. rollout_name r \<noteq> Some n"
  shows "final_entry rollouts a out = Inl KeyError"
  using get_rollout_unmatched [OF assms(2)] assms(1)
  by (auto simp: final_entry_def and_then_def item_def subscript_def FINAL_DEFINE_def)

lemma for_each_raises:
  assumes "a \<in> set xs" and "\<And>st. isl (body a st)"
  shows "isl (for_each body xs st)"
  using assms(1)
proof (induction xs arbitrary: st)
  case Nil
  then show ?case by simp
next
  case (Cons x xs)
  show ?case
  proof (cases "body x st")
    case (Inl e)
    then show ?thesis by simp
  next
    case (Inr st')
    with Cons assms(2) [of st] have "a \<in> set xs" by auto
    from Cons.IH [OF this] Inr show ?thesis by simp
  qed
qed

lemma isl_and_then: "isl m \<Longrightarrow> isl (and_then m f)"
  by (cases m) (simp_all add: and_then_def)

text \<open>
  C1. The claim does not hold of the script. For an experiment named \<open>n\<close> that no rollout
  names, \<^verbatim>\<open>get_rollout_attr_for_experiment\<close> warns and returns a rollout whose default
  is the string \<^verbatim>\<open>'false'\<close>; that string is no key of \<^verbatim>\<open>FINAL_DEFINE\<close> (the keys are
  \<^verbatim>\<open>'broken'\<close>, \<^verbatim>\<open>False\<close>, \<^verbatim>\<open>True\<close> and \<^verbatim>\<open>'debug'\<close>), so line 239 raises
  KeyError: no run with such an experiment returns, whatever the rest of the documents.
\<close>

theorem unmatched_experiment_never_renders:
  assumes "a \<in> set attrs" and "name a = Some n"
    and "\<forall>r\<in>set rollouts. rollout_name r \<noteq> Some n"
  shows "final_entry rollouts a out = Inl KeyError
    \<and> isl (render attrs rollouts printed0)
    \<and> isl (run check_dates today attrs rollouts)"
proof -
  have body: "isl (final_entry rollouts a st)" for st
    by (simp add: final_entry_unmatched [OF assms(2,3)])
  have loop: "isl (for_each (final_entry rollouts) attrs st)" for st
    using assms(1) body by (rule for_each_raises)
  have h: "isl (experiments_h attrs rollouts p)" for p
    unfolding experiments_h_def by (rule isl_and_then) (rule loop)
  have r: "isl (render attrs rollouts p)" for p
    unfolding render_def by (rule isl_and_then) (rule h)
  have "isl (run check_dates today attrs rollouts)"
    by (cases "validate check_dates today attrs rollouts")
      (simp_all add: run_def and_then_def r)
  with r final_entry_unmatched [OF assms(2,3)] show ?thesis by simp
qed

text \<open>One valid experiment \<^verbatim>\<open>foo\<close> and a rollout document that only names
  \<^verbatim>\<open>bar\<close>: validation finds no error, and the run ends with KeyError.\<close>

theorem unmatched_experiment_never_renders_witness:
  "validate True 738463
     [\<lparr>name = Some ''foo'', description = Some ''d'', owner = Some ''o'',
       expiry = Some ''2022/12/01'', test_tags = Some [''core''],
       allow_in_fuzzing_config = None\<rparr>]
     [\<lparr>rollout_name = Some ''bar'', default = Some (YBool True)\<rparr>]
   = Inr \<lparr>error = False, experiment_annotation = ''gRPC experiments:foo:0,'', stdout = []\<rparr>
   \<and> get_rollout_attr_for_experiment
       [\<lparr>rollout_name = Some ''bar'', default = Some (YBool True)\<rparr>] ''foo''
     = Inr ([Warning ''foo''], \<lparr>rollout_name = Some ''foo'', default = Some (YStr ''false'')\<rparr>)
   \<and> final_entry [\<lparr>rollout_name = Some ''bar'', default = Some (YBool True)\<rparr>]
       \<lparr>name = Some ''foo'', description = Some ''d'', owner = Some ''o'',
        expiry = Some ''2022/12/01'', test_tags = Some [''core''],
        allow_in_fuzzing_config = None\<rparr> ([], [])
     = Inl KeyError
   \<and> run True 738463
     [\<lparr>name = Some ''foo'', description = Some ''d'', owner = Some ''o'',
       expiry = Some ''2022/12/01'', test_tags = Some [''core''],
       allow_in_fuzzing_config = None\<rparr>]
     [\<lparr>rollout_name = Some ''bar'', default = Some (YBool True)\<rparr>]
   = Inl KeyError"
proof -
  have e: "validate True 738463
     [\<lparr>name = Some ''foo'', description = Some ''d'', owner = Some ''o'',
       expiry = Some ''2022/12/01'', test_tags = Some [''core''],
       allow_in_fuzzing_config = None\<rparr>]
     [\<lparr>rollout_name = Some ''bar'', default = Some (YBool True)\<rparr>]
   = Inr \<lparr>error = False, experiment_annotation = ''gRPC experiments:foo:0,'', stdout = []\<rparr>
   \<and> get_rollout_attr_for_experiment
       [\<lparr>rollout_name = Some ''bar'', default = Some (YBool True)\<rparr>] ''foo''
     = Inr ([Warning ''foo''], \<lparr>rollout_name = Some ''foo'', default = Some (YStr ''false'')\<rparr>)
   \<and> run True 738463
     [\<lparr>name = Some ''foo'', description = Some ''d'', owner = Some ''o'',
       expiry = Some ''2022/12/01'', test_tags = Some [''core''],
       allow_in_fuzzing_config = None\<rparr>]
     [\<lparr>rollout_name = Some ''bar'', default = Some (YBool True)\<rparr>]
   = Inl KeyError"
    by code_simp
  show ?thesis
    using e unmatched_experiment_never_renders
      [of "\<lparr>name = Some ''foo'', description = Some ''d'', owner = Some ''o'',
            expiry = Some ''2022/12/01'', test_tags = Some [''core''],
            allow_in_fuzzing_config = None\<rparr>"
          "[\<lparr>name = Some ''foo'', description = Some ''d'', owner = Some ''o'',
            expiry = Some ''2022/12/01'', test_tags = Some [''core''],
            allow_in_fuzzing_config = None\<rparr>]"
          "''foo''" "[\<lparr>rollout_name = Some ''bar'', default = Some (YBool True)\<rparr>]"
          "([], [])"]
    by simp
qed

subsection \<open>An experiment without test tags\<close>

text \<open>
  C3. The claim does not hold of the script. An experiment without \<^verbatim>\<open>test_tags\<close> passes
  validation, which never looks at that key; \<^verbatim>\<open>experiments.h\<close> and \<^verbatim>\<open>experiments.cc\<close>
  are written, and line 319 raises KeyError on \<^verbatim>\<open>attr['test_tags']\<close>.
\<close>

theorem missing_test_tags_raises:
  "validate True 738463
     [\<lparr>name = Some ''foo'', description = Some ''d'', owner = Some ''o'',
       expiry = Some ''2022/12/01'', test_tags = None, allow_in_fuzzing_config = None\<rparr>]
     [\<lparr>rollout_name = Some ''foo'', default = Some (YBool True)\<rparr>]
   = Inr \<lparr>error = False, experiment_annotation = ''gRPC experiments:foo:0,'', stdout = []\<rparr>
   \<and> \<not> isl (experiments_h
       [\<lparr>name = Some ''foo'', description = Some ''d'', owner = Some ''o'',
         expiry = Some ''2022/12/01'', test_tags = None, allow_in_fuzzing_config = None\<rparr>]
       [\<lparr>rollout_name = Some ''foo'', default = Some (YBool True)\<rparr>] [])
   \<and> \<not> isl (experiments_cc
       [\<lparr>name = Some ''foo'', description = Some ''d'', owner = Some ''o'',
         expiry = Some ''2022/12/01'', test_tags = None, allow_in_fuzzing_config = None\<rparr>]
       [\<lparr>rollout_name = Some ''foo'', default = Some (YBool True)\<rparr>] [])
   \<and> collect_tags [\<lparr>rollout_name = Some ''foo'', default = Some (YBool True)\<rparr>]
       \<lparr>name = Some ''foo'', description = Some ''d'', owner = Some ''o'',
        expiry = Some ''2022/12/01'', test_tags = None, allow_in_fuzzing_config = None\<rparr>
       ([], bzl_to_tags_to_experiments)
     = Inl KeyError
   \<and> run True 738463
     [\<lparr>name = Some ''foo'', description = Some ''d'', owner = Some ''o'',
       expiry = Some ''2022/12/01'', test_tags = None, allow_in_fuzzing_config = None\<rparr>]
     [\<lparr>rollout_name = Some ''foo'', default = Some (YBool True)\<rparr>]
   = Inl KeyError"
  by code_simp

subsection \<open>How rendering depends on the rollout document\<close>

lemma experiment_names_iff:
  "n \<in> experiment_names attrs \<longleftrightarrow> (\<exists>a\<in>set attrs. name a = Some n)"
  by (induction attrs) (auto simp: experiment_names_def split: option.splits)

lemma for_each_cong:
  assumes "\<And>x st. x \<in> set xs \<Longrightarrow> f x st = g x st"
  shows "for_each f xs st = for_each g xs st"
  using assms
  by (induction xs arbitrary: st) (auto split: sum.splits)

lemma and_then_assoc_Inr:
  "and_then (and_then m (\<lambda>x. Inr (g x))) f = and_then m (\<lambda>x. f (g x))"
  by (cases m) (simp_all add: and_then_def)


lemma DEFAULTS_debug:
  "dict_get DEFAULTS d = Some ''kDefaultForDebugOnly'' \<longleftrightarrow> d = YStr ''debug''"
  by (cases d) (auto simp: DEFAULTS_def)

lemma have_defaults_acc:
  "for_each
       (\<lambda>r seen. and_then (item (default r)) (\<lambda>d.
                  and_then (subscript DEFAULTS d) (\<lambda>v. Inr (seen @ [v]))))
       rs acc =
     (if \<forall>r\<in>set rs. default_ok r
      then Inr (acc @ map (\<lambda>r. the (dict_get DEFAULTS (the (default r)))) rs)
      else Inl KeyError)"
  by (induction rs arbitrary: acc)
    (auto simp: and_then_def item_def subscript_def default_ok_def split: option.splits)

lemma debug_block_eq:
  "debug_block rs =
     (if \<forall>r\<in>set rs. default_ok r
      then Inr (if has_debug rs
                then [''#ifdef NDEBUG'',
                      ''const bool kDefaultForDebugOnly = false;'',
                      ''#else'',
                      ''const bool kDefaultForDebugOnly = true;'',
                      ''#endif'']
                else [])
      else Inl KeyError)"
proof (cases "\<forall>r\<in>set rs. default_ok r")
  case False
  then show ?thesis
    unfolding debug_block_def have_defaults_def have_defaults_acc
    by (auto simp: and_then_def)
next
  case True
  have "''kDefaultForDebugOnly'' \<in> (\<lambda>r. the (dict_get DEFAULTS (the (default r)))) ` set rs
      \<longleftrightarrow> has_debug rs"
  proof
    assume "''kDefaultForDebugOnly'' \<in> (\<lambda>r. the (dict_get DEFAULTS (the (default r)))) ` set rs"
    then obtain r where r: "r \<in> set rs"
      and v: "the (dict_get DEFAULTS (the (default r))) = ''kDefaultForDebugOnly''"
      by auto
    from True r obtain d where d: "default r = Some d" and "dict_get DEFAULTS d \<noteq> None"
      by (auto simp: default_ok_def split: option.splits)
    with v have "dict_get DEFAULTS d = Some ''kDefaultForDebugOnly''" by auto
    then have "d = YStr ''debug''" by (simp add: DEFAULTS_debug)
    with d r show "has_debug rs" by (force simp: has_debug_def)
  next
    assume "has_debug rs"
    then obtain r where r: "r \<in> set rs" and d: "default r = Some (YStr ''debug'')"
      by (auto simp: has_debug_def)
    have "dict_get DEFAULTS (YStr ''debug'') = Some ''kDefaultForDebugOnly''"
      by (simp add: DEFAULTS_debug)
    with r d show "''kDefaultForDebugOnly'' \<in> (\<lambda>r. the (dict_get DEFAULTS (the (default r)))) ` set rs"
      by force
  qed
  with True show ?thesis
    unfolding debug_block_def have_defaults_def have_defaults_acc
    by (simp add: and_then_def debug_only_lines_def)
qed

lemma entries_cong:
  assumes "\<And>n. name a = Some n \<Longrightarrow>
      get_rollout_attr_for_experiment R n = get_rollout_attr_for_experiment R' n"
  shows "final_entry R a out_h = final_entry R' a out_h"
    and "metadata_entry R a out = metadata_entry R' a out"
    and "collect_tags R a st = collect_tags R' a st"
  using assms
  by (cases "name a"; simp add: final_entry_def metadata_entry_def collect_tags_def
      and_then_def item_def)+

lemma render_cong:
  assumes res: "\<And>a n. a \<in> set attrs \<Longrightarrow> name a = Some n \<Longrightarrow>
      get_rollout_attr_for_experiment R n = get_rollout_attr_for_experiment R' n"
    and dbg: "debug_block R = debug_block R'"
  shows "render attrs R p = render attrs R' p"
proof -
  have f: "for_each (final_entry R) attrs st = for_each (final_entry R') attrs st" for st
    by (rule for_each_cong) (rule entries_cong, rule res)
  have m: "for_each (metadata_entry R) attrs st = for_each (metadata_entry R') attrs st" for st
    by (rule for_each_cong) (rule entries_cong, rule res)
  have c: "for_each (collect_tags R) attrs st = for_each (collect_tags R') attrs st" for st
    by (rule for_each_cong) (rule entries_cong, rule res)
  have h: "experiments_h attrs R q = experiments_h attrs R' q" for q
    by (simp add: experiments_h_def f)
  have cc: "experiments_cc attrs R q = experiments_cc attrs R' q" for q
  proof -
    have "experiments_cc attrs X q =
        and_then (for_each description_entry attrs (q, experiments_cc_head)) (\<lambda>out1.
        and_then (debug_block X) (\<lambda>block.
        and_then (for_each (metadata_entry X) attrs
                 (fst out1,
                  snd out1 @ block
                  @ [''}'',
                     [],
                     ''namespace grpc_core {'',
                     [],
                     ''const ExperimentMetadata g_experiment_metadata[] = {'']))
          (\<lambda>out2.
          Inr (fst out2, snd out2 @ [''};'', [], ''}  // namespace grpc_core'', ''#endif'']))))"
      for X
      by (simp add: experiments_cc_def debug_block_def and_then_assoc_Inr)
    then show ?thesis by (simp add: m dbg)
  qed
  show ?thesis
    by (simp add: render_def h cc c)
qed


lemma get_rollout_named_distinct:
  assumes "\<forall>r\<in>set R. rollout_name r \<noteq> None" and "distinct (map rollout_name R)"
  shows "get_rollout_attr_for_experiment R n =
     (if \<exists>r\<in>set R. rollout_name r = Some n
      then Inr ([], THE r. r \<in> set R \<and> rollout_name r = Some n)
      else Inr ([Warning n], \<lparr>rollout_name = Some n, default = Some (YStr ''false'')\<rparr>))"
  using assms
proof (induction R)
  case Nil
  then show ?case by simp
next
  case (Cons x R)
  show ?case
  proof (cases "rollout_name x = Some n")
    case True
    with Cons.prems have "\<And>r. r \<in> set (x # R) \<and> rollout_name r = Some n \<longleftrightarrow> r = x"
      by (auto simp: image_iff) 
    with True show ?thesis
      by (simp add: and_then_def item_def)
  next
    case False
    with Cons.prems obtain m where m: "rollout_name x = Some m" "m \<noteq> n" by auto
    from False have "\<And>r. r \<in> set (x # R) \<and> rollout_name r = Some n \<longleftrightarrow>
        r \<in> set R \<and> rollout_name r = Some n"
      by auto
    with Cons m show ?thesis
      by (simp add: and_then_def item_def)
  qed
qed

lemma check_rollout_valid: "valid_rollout r \<Longrightarrow> check_rollout r st = Inr st"
  by (auto simp: valid_rollout_def check_rollout_def split: option.splits)

lemma differ_by_check_rollouts:
  assumes "differ_by P R R'" and "\<And>u. P u \<Longrightarrow> valid_rollout u"
  shows "for_each check_rollout R st = for_each check_rollout R' st"
  using assms(1)
proof (induction arbitrary: st)
  case both_end
  show ?case by simp
next
  case (shared rs rs' r)
  then show ?case by (simp split: sum.splits)
next
  case (only_left r rs rs')
  then show ?case by (simp add: check_rollout_valid assms(2))
next
  case (only_right r rs rs')
  then show ?case by (simp add: check_rollout_valid assms(2))
qed

lemma differ_by_get_rollout:
  assumes "differ_by P R R'"
    and "\<And>u. P u \<Longrightarrow> \<exists>m. rollout_name u = Some m \<and> m \<noteq> n"
  shows "get_rollout_attr_for_experiment R n = get_rollout_attr_for_experiment R' n"
  using assms(1)
proof (induction)
  case both_end
  show ?case by simp
next
  case (shared rs rs' r)
  then show ?case by (simp add: and_then_def split: sum.splits)
next
  case (only_left r rs rs')
  from assms(2) [OF only_left.hyps(1)] only_left.IH show ?case
    by (auto simp: and_then_def item_def)
next
  case (only_right r rs rs')
  from assms(2) [OF only_right.hyps(1)] only_right.IH show ?case
    by (auto simp: and_then_def item_def)
qed

lemma differ_by_default_ok:
  assumes "differ_by P R R'" and "\<And>u. P u \<Longrightarrow> default_ok u"
  shows "(\<forall>r\<in>set R. default_ok r) \<longleftrightarrow> (\<forall>r\<in>set R'. default_ok r)"
  using assms(1) by (induction) (auto simp: assms(2))

text \<open>
  C5, as stated, fails. With the same experiment \<^verbatim>\<open>foo\<close>, adding to the rollouts a
  record \<^verbatim>\<open>zzz\<close> that no experiment names changes the run: when its default is not
  recognised the run exits with status 1 (every rollout is validated), and when its default
  is \<^verbatim>\<open>debug\<close> the lines of \<^verbatim>\<open>kDefaultForDebugOnly\<close> appear in \<^verbatim>\<open>experiments.cc\<close>
  (lines 285-286 look at every rollout).
\<close>

theorem unmatched_rollout_changes_run:
  "run True 738463
     [\<lparr>name = Some ''foo'', description = Some ''d'', owner = Some ''o'',
       expiry = Some ''2022/12/01'', test_tags = Some [''core''],
       allow_in_fuzzing_config = None\<rparr>]
     [\<lparr>rollout_name = Some ''foo'', default = Some (YBool True)\<rparr>,
      \<lparr>rollout_name = Some ''zzz'', default = Some (YStr ''maybe'')\<rparr>]
   = Inl (SystemExit 1)
   \<and> (case run True 738463
     [\<lparr>name = Some ''foo'', description = Some ''d'', owner = Some ''o'',
       expiry = Some ''2022/12/01'', test_tags = Some [''core''],
       allow_in_fuzzing_config = None\<rparr>]
     [\<lparr>rollout_name = Some ''foo'', default = Some (YBool True)\<rparr>,
      \<lparr>rollout_name = Some ''zzz'', default = Some (YStr ''debug'')\<rparr>] of
       Inl e \<Rightarrow> False
     | Inr out \<Rightarrow> ''const bool kDefaultForDebugOnly = true;'' \<in> set (experiments_cc_file out))
   \<and> (case run True 738463
     [\<lparr>name = Some ''foo'', description = Some ''d'', owner = Some ''o'',
       expiry = Some ''2022/12/01'', test_tags = Some [''core''],
       allow_in_fuzzing_config = None\<rparr>]
     [\<lparr>rollout_name = Some ''foo'', default = Some (YBool True)\<rparr>] of
       Inl e \<Rightarrow> False
     | Inr out \<Rightarrow> ''const bool kDefaultForDebugOnly = true;'' \<notin> set (experiments_cc_file out))"
  by code_simp

text \<open>
  C5, amended. Take two rollout documents that differ only by records whose name is the
  name of no experiment (each is the other with such records added or removed), where the
  records added or removed pass the checks of lines 80-90, and that agree on whether some
  record has the default \<^verbatim>\<open>debug\<close>. On the same experiment document they give the same
  validation (the same error flag and messages, or the same exception), the same rollout
  and warning for the name of every experiment, the same rendering from any standard
  output so far (the same three files and warnings, or the same exception), and so the
  same run.
\<close>

theorem unmatched_rollouts_ignored:
  assumes "differ_by (\<lambda>u. \<not> matched attrs u \<and> valid_rollout u) rollouts rollouts'"
    and "has_debug rollouts' = has_debug rollouts"
  shows "validate check_dates today attrs rollouts' = validate check_dates today attrs rollouts
    \<and> (\<forall>n\<in>experiment_names attrs.
          get_rollout_attr_for_experiment rollouts' n =
          get_rollout_attr_for_experiment rollouts n)
    \<and> render attrs rollouts' printed0 = render attrs rollouts printed0
    \<and> run check_dates today attrs rollouts' = run check_dates today attrs rollouts"
proof -
  have "for_each check_rollout rollouts st = for_each check_rollout rollouts' st" for st
    using assms(1) by (rule differ_by_check_rollouts) simp
  then have v: "validate check_dates today attrs rollouts' =
      validate check_dates today attrs rollouts"
    by (simp add: validate_def cong: sum.case_cong)
  have g: "get_rollout_attr_for_experiment rollouts' n =
      get_rollout_attr_for_experiment rollouts n"
    if "n \<in> experiment_names attrs" for n
  proof -
    have "get_rollout_attr_for_experiment rollouts n =
        get_rollout_attr_for_experiment rollouts' n"
      using assms(1)
    proof (rule differ_by_get_rollout)
      fix u
      assume "\<not> matched attrs u \<and> valid_rollout u"
      with that show "\<exists>m. rollout_name u = Some m \<and> m \<noteq> n"
        by (auto simp: matched_def valid_rollout_def)
    qed
    then show ?thesis by simp
  qed
  have "(\<forall>r\<in>set rollouts. default_ok r) \<longleftrightarrow> (\<forall>r\<in>set rollouts'. default_ok r)"
    using assms(1)
    by (rule differ_by_default_ok) (simp add: valid_rollout_def default_ok_def)
  then have dbg: "debug_block rollouts' = debug_block rollouts"
    by (simp add: debug_block_eq assms(2))
  have r: "render attrs rollouts' p = render attrs rollouts p" for p
  proof (rule render_cong)
    fix a n
    assume "a \<in> set attrs" and "name a = Some n"
    then have "n \<in> experiment_names attrs" by (auto simp: experiment_names_iff)
    then show "get_rollout_attr_for_experiment rollouts' n =
        get_rollout_attr_for_experiment rollouts n"
      by (rule g)
  qed (rule dbg)
  have "run check_dates today attrs rollouts' = run check_dates today attrs rollouts"
    by (simp add: run_def v r cong: if_cong)
  with v g r show ?thesis by blast
qed

text \<open>The experiment \<^verbatim>\<open>foo\<close>, whose rollout has a default that is not recognised, with
  and without a rollout \<^verbatim>\<open>zzz\<close> before it: validation prints the same message and the
  run exits with status 1 in both.\<close>

theorem unmatched_rollouts_ignored_witness:
  "validate True 738463
     [\<lparr>name = Some ''foo'', description = Some ''d'', owner = Some ''o'',
       expiry = Some ''2022/12/01'', test_tags = Some [''core''],
       allow_in_fuzzing_config = None\<rparr>]
     [\<lparr>rollout_name = Some ''zzz'', default = Some (YBool False)\<rparr>,
      \<lparr>rollout_name = Some ''foo'', default = Some (YStr ''maybe'')\<rparr>]
   = Inr \<lparr>error = True, experiment_annotation = ''gRPC experiments:foo:0,'',
          stdout = [InvalidDefault ''foo'' (YStr ''maybe'')]\<rparr>
   \<and> run True 738463
     [\<lparr>name = Some ''foo'', description = Some ''d'', owner = Some ''o'',
       expiry = Some ''2022/12/01'', test_tags = Some [''core''],
       allow_in_fuzzing_config = None\<rparr>]
     [\<lparr>rollout_name = Some ''zzz'', default = Some (YBool False)\<rparr>,
      \<lparr>rollout_name = Some ''foo'', default = Some (YStr ''maybe'')\<rparr>]
   = Inl (SystemExit 1)"
proof -
  have d: "differ_by
      (\<lambda>u. \<not> matched
               [\<lparr>name = Some ''foo'', description = Some ''d'', owner = Some ''o'',
                 expiry = Some ''2022/12/01'', test_tags = Some [''core''],
                 allow_in_fuzzing_config = None\<rparr>] u
          \<and> valid_rollout u)
      [\<lparr>rollout_name = Some ''foo'', default = Some (YStr ''maybe'')\<rparr>]
      [\<lparr>rollout_name = Some ''zzz'', default = Some (YBool False)\<rparr>,
       \<lparr>rollout_name = Some ''foo'', default = Some (YStr ''maybe'')\<rparr>]"
    by (rule only_right, simp add: matched_def experiment_names_iff valid_rollout_def
        DEFAULTS_def, rule shared, rule both_end)
  have h: "has_debug
      [\<lparr>rollout_name = Some ''zzz'', default = Some (YBool False)\<rparr>,
       \<lparr>rollout_name = Some ''foo'', default = Some (YStr ''maybe'')\<rparr>]
    = has_debug [\<lparr>rollout_name = Some ''foo'', default = Some (YStr ''maybe'')\<rparr>]"
    by (simp add: has_debug_def)
  have e: "validate True 738463
     [\<lparr>name = Some ''foo'', description = Some ''d'', owner = Some ''o'',
       expiry = Some ''2022/12/01'', test_tags = Some [''core''],
       allow_in_fuzzing_config = None\<rparr>]
     [\<lparr>rollout_name = Some ''foo'', default = Some (YStr ''maybe'')\<rparr>]
   = Inr \<lparr>error = True, experiment_annotation = ''gRPC experiments:foo:0,'',
          stdout = [InvalidDefault ''foo'' (YStr ''maybe'')]\<rparr>
   \<and> run True 738463
     [\<lparr>name = Some ''foo'', description = Some ''d'', owner = Some ''o'',
       expiry = Some ''2022/12/01'', test_tags = Some [''core''],
       allow_in_fuzzing_config = None\<rparr>]
     [\<lparr>rollout_name = Some ''foo'', default = Some (YStr ''maybe'')\<rparr>]
   = Inl (SystemExit 1)"
    by code_simp
  from unmatched_rollouts_ignored [OF d h, of True 738463] e show ?thesis
    by simp
qed

text \<open>
  C6, as stated, fails. \<^verbatim>\<open>get_rollout_attr_for_experiment\<close> returns the first rollout
  of the name, and validation accepts two rollouts of one name: with \<^verbatim>\<open>foo\<close> once
  \<^verbatim>\<open>true\<close> and once \<^verbatim>\<open>false\<close>, the accessor of \<^verbatim>\<open>experiments.h\<close> returns true
  in one order of the two records and false in the other.
\<close>

theorem duplicate_rollouts_depend_on_order:
  "mset [\<lparr>rollout_name = Some ''foo'', default = Some (YBool True)\<rparr>,
         \<lparr>rollout_name = Some ''foo'', default = Some (YBool False)\<rparr>]
   = mset [\<lparr>rollout_name = Some ''foo'', default = Some (YBool False)\<rparr>,
           \<lparr>rollout_name = Some ''foo'', default = Some (YBool True)\<rparr>]
   \<and> (case run True 738463
     [\<lparr>name = Some ''foo'', description = Some ''d'', owner = Some ''o'',
       expiry = Some ''2022/12/01'', test_tags = Some [''core''],
       allow_in_fuzzing_config = None\<rparr>]
     [\<lparr>rollout_name = Some ''foo'', default = Some (YBool True)\<rparr>,
      \<lparr>rollout_name = Some ''foo'', default = Some (YBool False)\<rparr>] of
       Inl e \<Rightarrow> False
     | Inr out \<Rightarrow> unicode_of ''inline bool IsFooEnabled() { return true; }'' \<in> set (experiments_h_file out))
   \<and> (case run True 738463
     [\<lparr>name = Some ''foo'', description = Some ''d'', owner = Some ''o'',
       expiry = Some ''2022/12/01'', test_tags = Some [''core''],
       allow_in_fuzzing_config = None\<rparr>]
     [\<lparr>rollout_name = Some ''foo'', default = Some (YBool False)\<rparr>,
      \<lparr>rollout_name = Some ''foo'', default = Some (YBool True)\<rparr>] of
       Inl e \<Rightarrow> False
     | Inr out \<Rightarrow> unicode_of ''inline bool IsFooEnabled() { return true; }'' \<notin> set (experiments_h_file out))"
proof -
  have "mset [\<lparr>rollout_name = Some ''foo'', default = Some (YBool True)\<rparr>,
         \<lparr>rollout_name = Some ''foo'', default = Some (YBool False)\<rparr>]
   = mset [\<lparr>rollout_name = Some ''foo'', default = Some (YBool False)\<rparr>,
           \<lparr>rollout_name = Some ''foo'', default = Some (YBool True)\<rparr>]"
    by (simp add: add_mset_commute)
  moreover have "(case run True 738463
     [\<lparr>name = Some ''foo'', description = Some ''d'', owner = Some ''o'',
       expiry = Some ''2022/12/01'', test_tags = Some [''core''],
       allow_in_fuzzing_config = None\<rparr>]
     [\<lparr>rollout_name = Some ''foo'', default = Some (YBool True)\<rparr>,
      \<lparr>rollout_name = Some ''foo'', default = Some (YBool False)\<rparr>] of
       Inl e \<Rightarrow> False
     | Inr out \<Rightarrow> unicode_of ''inline bool IsFooEnabled() { return true; }'' \<in> set (experiments_h_file out))"
    by code_simp
  moreover have "(case run True 738463
     [\<lparr>name = Some ''foo'', description = Some ''d'', owner = Some ''o'',
       expiry = Some ''2022/12/01'', test_tags = Some [''core''],
       allow_in_fuzzing_config = None\<rparr>]
     [\<lparr>rollout_name = Some ''foo'', default = Some (YBool False)\<rparr>,
      \<lparr>rollout_name = Some ''foo'', default = Some (YBool True)\<rparr>] of
       Inl e \<Rightarrow> False
     | Inr out \<Rightarrow> unicode_of ''inline bool IsFooEnabled() { return true; }'' \<notin> set (experiments_h_file out))"
    by code_simp
  ultimately show ?thesis by blast
qed

text \<open>
  C6, amended. The run is a function of the documents, the mode and the date. For a rollout
  document that passes the checks of lines 80-90 and in which no two records have the same
  name, every permutation of its records gives the same three files and the same messages:
  the same rendering from any standard output so far, and the same run.
\<close>

theorem rollout_order_irrelevant:
  assumes "mset rollouts' = mset rollouts"
    and "distinct (map rollout_name rollouts)"
    and "\<forall>r\<in>set rollouts. valid_rollout r"
  shows "render attrs rollouts' printed0 = render attrs rollouts printed0
    \<and> run check_dates today attrs rollouts' = run check_dates today attrs rollouts"
proof -
  from assms(1) have s: "set rollouts' = set rollouts"
    by (rule mset_eq_setD)
  from assms(1) have "mset (map rollout_name rollouts') = mset (map rollout_name rollouts)"
    by simp
  with assms(2) have d': "distinct (map rollout_name rollouts')"
    by (metis distinct_count_atmost_1 set_mset_mset)
  from assms(3) have named: "\<forall>r\<in>set rollouts. rollout_name r \<noteq> None"
    by (simp add: valid_rollout_def)
  have g: "get_rollout_attr_for_experiment rollouts' n =
      get_rollout_attr_for_experiment rollouts n" for n
    using named by (simp add: get_rollout_named_distinct assms(2) d' s)
  have dbg: "debug_block rollouts' = debug_block rollouts"
    by (simp add: debug_block_eq s has_debug_def)
  have r: "render attrs rollouts' p = render attrs rollouts p" for p
    by (rule render_cong) (simp_all add: g dbg)
  have ok: "check_rollout x st = Inr st" if "valid_rollout x" for x st
    using that by (auto simp: valid_rollout_def check_rollout_def split: option.splits)
  have loop: "for_each check_rollout xs st = Inr st" if "\<forall>x\<in>set xs. valid_rollout x" for xs st
    using that by (induction xs) (simp_all add: ok)
  have "for_each check_rollout rollouts st = Inr st"
    and "for_each check_rollout rollouts' st = Inr st" for st
    using assms(3) by (simp_all add: loop s)
  then have "validate check_dates today attrs rollouts' = validate check_dates today attrs rollouts"
    by (simp add: validate_def cong: sum.case_cong)
  then show ?thesis
    by (simp add: run_def r cong: if_cong)
qed

theorem rollout_order_irrelevant_witness:
  "run True 738463
     [\<lparr>name = Some ''foo'', description = Some ''d'', owner = Some ''o'',
       expiry = Some ''2022/12/01'', test_tags = Some [''core''],
       allow_in_fuzzing_config = None\<rparr>]
     [\<lparr>rollout_name = Some ''bar'', default = Some (YBool False)\<rparr>,
      \<lparr>rollout_name = Some ''foo'', default = Some (YBool True)\<rparr>]
   = run True 738463
     [\<lparr>name = Some ''foo'', description = Some ''d'', owner = Some ''o'',
       expiry = Some ''2022/12/01'', test_tags = Some [''core''],
       allow_in_fuzzing_config = None\<rparr>]
     [\<lparr>rollout_name = Some ''foo'', default = Some (YBool True)\<rparr>,
      \<lparr>rollout_name = Some ''bar'', default = Some (YBool False)\<rparr>]"
  using rollout_order_irrelevant
    [of "[\<lparr>rollout_name = Some ''bar'', default = Some (YBool False)\<rparr>,
          \<lparr>rollout_name = Some ''foo'', default = Some (YBool True)\<rparr>]"
        "[\<lparr>rollout_name = Some ''foo'', default = Some (YBool True)\<rparr>,
          \<lparr>rollout_name = Some ''bar'', default = Some (YBool False)\<rparr>]"]
  by (simp add: valid_rollout_def DEFAULTS_def)

end
